theory Spec2Isabelle
  imports Complex_Main "HOL-Library.Word" "HOL-Library.Sublist"
begin

section \<open>JavaScript values used by \<^verbatim>\<open>src/app/page.tsx\<close>\<close>

text \<open>
  A JavaScript string is a sequence of 16-bit code units. Literals of the page are ASCII,
  written here as \<open>js ''...''\<close>.
\<close>

type_synonym code_unit = "16 word"
type_synonym js_string = "code_unit list"

definition js :: "string \<Rightarrow> js_string" where
  "js s = map (\<lambda>c. of_nat (of_char c)) s"

text \<open>
  A Number that a JSON text or \<^verbatim>\<open>Response.json()\<close> can produce: a finite value
  (the two zeros are one value here, both are falsy) or an overflowed literal.
\<close>

datatype js_number = Finite rat | PosInfinity | NegInfinity

text \<open>
  A value delivered by \<^verbatim>\<open>Response.json()\<close> or \<^verbatim>\<open>JSON.parse\<close>. An object is the list
  of its own properties, each key once. \<^verbatim>\<open>undefined\<close> (a property that is not there) is \<open>None\<close> of
  \<open>json option\<close>.
\<close>

datatype json =
    JNull
  | JBool bool
  | JNumber js_number
  | JString js_string
  | JArray "json list"
  | JObject "(js_string \<times> json) list"

text \<open>ToBoolean, as \<^verbatim>\<open>!x\<close> and \<^verbatim>\<open>x || y\<close> apply it.\<close>

fun truthy :: "json \<Rightarrow> bool" where
  "truthy JNull = False"
| "truthy (JBool b) = b"
| "truthy (JNumber n) = (n \<noteq> Finite 0)"
| "truthy (JString s) = (s \<noteq> [])"
| "truthy (JArray xs) = True"
| "truthy (JObject kvs) = True"

fun truthy_opt :: "json option \<Rightarrow> bool" where
  "truthy_opt None = False"
| "truthy_opt (Some v) = truthy v"

text \<open>
  \<^verbatim>\<open>v.k\<close> on a value that is not null, for the keys the page reads (\<^verbatim>\<open>success\<close>,
  \<^verbatim>\<open>error\<close>, \<^verbatim>\<open>response\<close>, \<^verbatim>\<open>metadata\<close>, \<^verbatim>\<open>markdown_output\<close>, \<^verbatim>\<open>json_output\<close>):
  none of them is defined on a prototype, so the read gives the own property of an
  object and \<^verbatim>\<open>undefined\<close> on a primitive or an array. Reading a property of
  \<^verbatim>\<open>null\<close> throws; the callers below treat \<open>JNull\<close> before they read.
\<close>

fun property :: "json \<Rightarrow> js_string \<Rightarrow> json option" where
  "property (JObject kvs) k = map_of kvs k"
| "property v k = None"

text \<open>\<^verbatim>\<open>a || b\<close> where \<^verbatim>\<open>a\<close> may be undefined.\<close>

fun js_or :: "json option \<Rightarrow> json \<Rightarrow> json" where
  "js_or None d = d"
| "js_or (Some v) d = (if truthy v then v else d)"

text \<open>\<^verbatim>\<open>a ?? b\<close>: the right operand only for \<^verbatim>\<open>null\<close> and \<^verbatim>\<open>undefined\<close>.\<close>

fun js_nullish :: "json option \<Rightarrow> json \<Rightarrow> json" where
  "js_nullish None d = d"
| "js_nullish (Some JNull) d = d"
| "js_nullish (Some v) d = v"

text \<open>A thrown value: an \<^verbatim>\<open>Error\<close> instance with its message, or anything else.\<close>

datatype thrown = ErrorObject js_string | OtherThrown

text \<open>
  What the page takes from the JavaScript runtime: \<^verbatim>\<open>JSON.parse\<close> (\<open>None\<close> when it
  throws a SyntaxError), \<^verbatim>\<open>JSON.stringify(v, null, 2)\<close>, whether \<^verbatim>\<open>new URL(s)\<close>
  returns rather than throws, and the message of the TypeError that reading a property
  of \<^verbatim>\<open>null\<close> throws. They are parameters of the model.
\<close>

record runtime =
  JSON_parse :: "js_string \<Rightarrow> json option"
  JSON_stringify2 :: "json \<Rightarrow> js_string"
  URL_constructs :: "js_string \<Rightarrow> bool"
  null_read_message :: js_string

section \<open>Component state\<close>

datatype material_type = Doi | Url | Bibtex | Pdf

fun type_string :: "material_type \<Rightarrow> js_string" where
  "type_string Doi = js ''doi''"
| "type_string Url = js ''url''"
| "type_string Bibtex = js ''bibtex''"
| "type_string Pdf = js ''pdf''"

text \<open>Interface \<^verbatim>\<open>UploadedFile\<close> (fields \<^verbatim>\<open>id\<close>, \<^verbatim>\<open>name\<close>, \<^verbatim>\<open>type\<close>, \<^verbatim>\<open>content\<close>).\<close>

record uploaded_file =
  uf_id :: js_string
  uf_name :: js_string
  uf_type :: material_type
  uf_content :: js_string

text \<open>
  The \<^verbatim>\<open>useState\<close> cells of \<^verbatim>\<open>LiteratureAnalysisApp\<close> that the operations below
  touch; \<^verbatim>\<open>null\<close> is \<open>None\<close>. \<open>clipboard\<close> is the text last handed to
  \<^verbatim>\<open>navigator.clipboard.writeText\<close>, and \<open>pending\<close> holds the due times (in ms) of
  the \<^verbatim>\<open>setTimeout\<close> callbacks not yet run; every callback the page schedules is
  \<^verbatim>\<open>() => setCopiedIndex(null)\<close>.
\<close>

record app_state =
  files :: "uploaded_file list"
  loading :: bool
  result :: "json option"
  copiedIndex :: "js_string option"
  urlInput :: js_string
  error :: "json option"
  clipboard :: "json option"
  pending :: "nat list"

section \<open>generateReview\<close>

text \<open>\<^verbatim>\<open>String.prototype.toUpperCase\<close> on ASCII text (it is applied to the type names only).\<close>

definition toUpperCase :: "js_string \<Rightarrow> js_string" where
  "toUpperCase s = map (\<lambda>c. if 0x61 \<le> c \<and> c \<le> 0x7A then c - 0x20 else c) s"

text \<open>
  \<^verbatim>\<open>Array.prototype.join\<close> on an array of strings: the first element, then for each
  further element the separator and the element.
\<close>

fun join :: "js_string \<Rightarrow> js_string list \<Rightarrow> js_string" where
  "join sep [] = []"
| "join sep (x # xs) = foldl (\<lambda>R e. R @ sep @ e) x xs"

definition format_file :: "uploaded_file \<Rightarrow> js_string" where
  "format_file f = js ''['' @ toUpperCase (type_string (uf_type f)) @ js '']: '' @ uf_content f"

definition formattedInput :: "uploaded_file list \<Rightarrow> js_string" where
  "formattedInput fs = join [0x0A, 0x0A] (map format_file fs)"

text \<open>The object that is serialized into the body of the POST to \<^verbatim>\<open>/api/agent\<close>.\<close>

record request =
  message :: js_string
  agent_id :: js_string

definition task_text :: js_string where
  "task_text = js (''Process these research materials and generate a comprehensive '' @
     ''literature review with standardized metadata extraction, 150-word summaries per '' @
     ''paper, and a comparative analysis table:'') @ [0x0A, 0x0A]"

text \<open>
  The synchronous part of \<^verbatim>\<open>generateReview\<close>, up to the \<^verbatim>\<open>fetch\<close>: the new state and
  the request sent, if any.
\<close>

definition generateReview_submit :: "app_state \<Rightarrow> app_state \<times> request option" where
  "generateReview_submit s =
     (if length (files s) = 0 then (s, None)
      else (s\<lparr>loading := True, error := None\<rparr>,
            Some \<lparr>message = task_text @ formattedInput (files s),
                  agent_id = js ''6901b293cb70cd01d3072e42''\<rparr>))"

text \<open>What the two awaits give: an exception, or the envelope \<^verbatim>\<open>data\<close>.\<close>

datatype fetched = Rejected thrown | Resolved json

datatype outcome = SetError json | SetResult json | Throw thrown

definition msg_failed :: json where
  "msg_failed = JString (js ''Failed to generate review'')"

definition msg_no_response :: json where
  "msg_no_response = JString (js ''No response from agent'')"

definition msg_parse :: json where
  "msg_parse = JString (js ''Failed to parse agent response'')"

definition msg_format :: json where
  "msg_format = JString (js ''Invalid response format - missing metadata'')"

text \<open>
  \<^verbatim>\<open>typeof data.response === 'string' ? JSON.parse(data.response) : data.response\<close>;
  \<open>None\<close> when \<^verbatim>\<open>JSON.parse\<close> throws.
\<close>

fun parse_response :: "runtime \<Rightarrow> json \<Rightarrow> json option" where
  "parse_response rt (JString txt) = JSON_parse rt txt"
| "parse_response rt v = Some v"

text \<open>The checks on \<^verbatim>\<open>data\<close> inside the \<^verbatim>\<open>try\<close> block, in the order of the source.\<close>

definition validate :: "runtime \<Rightarrow> json \<Rightarrow> outcome" where
  "validate rt data =
     (if data = JNull then Throw (ErrorObject (null_read_message rt))
      else if \<not> truthy_opt (property data (js ''success''))
        then SetError (js_or (property data (js ''error'')) msg_failed)
      else (case property data (js ''response'') of
              None \<Rightarrow> SetError msg_no_response
            | Some response \<Rightarrow>
                if \<not> truthy response then SetError msg_no_response
                else (case parse_response rt response of
                        None \<Rightarrow> SetError msg_parse
                      | Some parsed \<Rightarrow>
                          if \<not> truthy parsed \<or> \<not> truthy_opt (property parsed (js ''metadata''))
                          then SetError msg_format
                          else SetResult parsed)))"

text \<open>The \<^verbatim>\<open>catch\<close> block: \<^verbatim>\<open>error instanceof Error ? error.message : '...'\<close>.\<close>

fun caught_message :: "thrown \<Rightarrow> json" where
  "caught_message (ErrorObject m) = JString m"
| "caught_message OtherThrown = JString (js ''An unexpected error occurred'')"

definition apply_outcome :: "outcome \<Rightarrow> app_state \<Rightarrow> app_state" where
  "apply_outcome out s =
     (case out of
        SetError m \<Rightarrow> s\<lparr>error := Some m\<rparr>
      | SetResult r \<Rightarrow> s\<lparr>result := Some r\<rparr>
      | Throw e \<Rightarrow> s\<lparr>error := Some (caught_message e)\<rparr>)"

text \<open>
  The rest of \<^verbatim>\<open>generateReview\<close>, run when the awaits settle, on the state of that
  moment; the \<^verbatim>\<open>finally\<close> block clears \<^verbatim>\<open>loading\<close>.
\<close>

definition generateReview_settle :: "runtime \<Rightarrow> fetched \<Rightarrow> app_state \<Rightarrow> app_state" where
  "generateReview_settle rt r s =
     (case r of
        Rejected e \<Rightarrow> (apply_outcome (Throw e) s)\<lparr>loading := False\<rparr>
      | Resolved data \<Rightarrow> (apply_outcome (validate rt data) s)\<lparr>loading := False\<rparr>)"

section \<open>Ingestion: the \<^verbatim>\<open>onload\<close> handler of processFiles, removeFile, addUrl\<close>

text \<open>The two fields of a browser \<^verbatim>\<open>File\<close> that the handler reads: \<^verbatim>\<open>name\<close> and \<^verbatim>\<open>type\<close>.\<close>

record browser_file =
  file_name :: js_string
  file_mime :: js_string

definition endsWith :: "js_string \<Rightarrow> js_string \<Rightarrow> bool" where
  "endsWith s suf = (length suf \<le> length s \<and> drop (length s - length suf) s = suf)"

definition startsWith :: "js_string \<Rightarrow> js_string \<Rightarrow> bool" where
  "startsWith s p = (take (length p) s = p)"

definition is_digit :: "code_unit \<Rightarrow> bool" where
  "is_digit c = (0x30 \<le> c \<and> c \<le> 0x39)"

text \<open>Whether \<^verbatim>\<open>content.match(/^10\.\d+/)\<close> is a match (truthy) rather than \<^verbatim>\<open>null\<close>.\<close>

definition match_doi :: "js_string \<Rightarrow> bool" where
  "match_doi s = (startsWith s (js ''10.'') \<and>
     (case drop 3 s of [] \<Rightarrow> False | d # rest \<Rightarrow> is_digit d))"

text \<open>The \<^verbatim>\<open>if\<close>/\<^verbatim>\<open>else if\<close> chain of the handler; \<^verbatim>\<open>type\<close> starts as \<^verbatim>\<open>'pdf'\<close>.\<close>

definition classify :: "browser_file \<Rightarrow> js_string \<Rightarrow> material_type" where
  "classify f content =
     (if endsWith (file_name f) (js ''.bib'') \<or> file_mime f = js ''text/plain'' then Bibtex
      else if file_mime f = js ''application/pdf'' then Pdf
      else if startsWith content (js ''http'') then Url
      else if match_doi content then Doi
      else Pdf)"

text \<open>
  \<^verbatim>\<open>`${Date.now()}-${Math.random()}`\<close>. The clock reading and the random draw are inputs
  from the environment, taken as the decimal texts the template literal makes of them.
\<close>

definition make_id :: "js_string \<Rightarrow> js_string \<Rightarrow> js_string" where
  "make_id now rnd = now @ js ''-'' @ rnd"

definition new_file :: "browser_file \<Rightarrow> js_string \<Rightarrow> js_string \<Rightarrow> js_string \<Rightarrow> uploaded_file" where
  "new_file f content now rnd =
     \<lparr>uf_id = make_id now rnd,
      uf_name = (if file_name f = [] then js ''Untitled'' else file_name f),
      uf_type = classify f content,
      uf_content = content\<rparr>"

definition onload :: "browser_file \<Rightarrow> js_string \<Rightarrow> js_string \<Rightarrow> js_string \<Rightarrow> app_state \<Rightarrow> app_state" where
  "onload f content now rnd s = s\<lparr>files := files s @ [new_file f content now rnd]\<rparr>"

definition removeFile :: "js_string \<Rightarrow> app_state \<Rightarrow> app_state" where
  "removeFile i s = s\<lparr>files := filter (\<lambda>f. uf_id f \<noteq> i) (files s)\<rparr>"

text \<open>White space and line terminators, which \<^verbatim>\<open>String.prototype.trim\<close> strips.\<close>

definition is_white :: "code_unit \<Rightarrow> bool" where
  "is_white c = ((0x09 \<le> c \<and> c \<le> 0x0D) \<or> c = 0x20 \<or> c = 0xA0 \<or> c = 0x1680 \<or>
     (0x2000 \<le> c \<and> c \<le> 0x200A) \<or> c = 0x2028 \<or> c = 0x2029 \<or> c = 0x202F \<or>
     c = 0x205F \<or> c = 0x3000 \<or> c = 0xFEFF)"

definition trim :: "js_string \<Rightarrow> js_string" where
  "trim s = rev (dropWhile is_white (rev (dropWhile is_white s)))"

definition new_url :: "js_string \<Rightarrow> js_string \<Rightarrow> js_string \<Rightarrow> uploaded_file" where
  "new_url url now rnd = \<lparr>uf_id = make_id now rnd, uf_name = url, uf_type = Url, uf_content = url\<rparr>"

definition addUrl :: "runtime \<Rightarrow> js_string \<Rightarrow> js_string \<Rightarrow> app_state \<Rightarrow> app_state" where
  "addUrl rt now rnd s =
     (if trim (urlInput s) = [] then s
      else if \<not> URL_constructs rt (trim (urlInput s)) then s\<lparr>urlInput := []\<rparr>
      else s\<lparr>files := files s @ [new_url (trim (urlInput s)) now rnd], urlInput := []\<rparr>)"

text \<open>The events that change the registry, and \<^verbatim>\<open>onChange\<close> of the URL input.\<close>

datatype event =
    FileLoaded browser_file js_string js_string js_string
  | UrlSubmitted js_string js_string
  | UrlTyped js_string
  | RemoveClicked js_string

fun step :: "runtime \<Rightarrow> event \<Rightarrow> app_state \<Rightarrow> app_state" where
  "step rt (FileLoaded f content now rnd) s = onload f content now rnd s"
| "step rt (UrlSubmitted now rnd) s = addUrl rt now rnd s"
| "step rt (UrlTyped v) s = s\<lparr>urlInput := v\<rparr>"
| "step rt (RemoveClicked i) s = removeFile i s"

fun run :: "runtime \<Rightarrow> event list \<Rightarrow> app_state \<Rightarrow> app_state" where
  "run rt [] s = s"
| "run rt (e # es) s = run rt es (step rt e s)"

text \<open>
  The records an event appends to the registry, written out from the two handlers: the
  \<^verbatim>\<open>onload\<close> handler always builds one, \<^verbatim>\<open>addUrl\<close> builds one when the trimmed input
  is not empty and \<^verbatim>\<open>new URL\<close> accepts it.
\<close>

fun created :: "runtime \<Rightarrow> event \<Rightarrow> app_state \<Rightarrow> uploaded_file list" where
  "created rt (FileLoaded f content now rnd) s =
     [\<lparr>uf_id = make_id now rnd,
       uf_name = (if file_name f = [] then js ''Untitled'' else file_name f),
       uf_type = classify f content,
       uf_content = content\<rparr>]"
| "created rt (UrlSubmitted now rnd) s =
     (if trim (urlInput s) \<noteq> [] \<and> URL_constructs rt (trim (urlInput s))
      then [\<lparr>uf_id = make_id now rnd, uf_name = trim (urlInput s), uf_type = Url,
             uf_content = trim (urlInput s)\<rparr>]
      else [])"
| "created rt (UrlTyped v) s = []"
| "created rt (RemoveClicked i) s = []"

text \<open>All records that arrive during a run, in the order of arrival.\<close>

fun arrivals :: "runtime \<Rightarrow> event list \<Rightarrow> app_state \<Rightarrow> uploaded_file list" where
  "arrivals rt [] s = []"
| "arrivals rt (e # es) s = created rt e s @ arrivals rt es (step rt e s)"

text \<open>The ids that the removals of a run name.\<close>

fun removals :: "event list \<Rightarrow> js_string list" where
  "removals [] = []"
| "removals (RemoveClicked i # es) = i # removals es"
| "removals (e # es) = removals es"

text \<open>
  The records that arrive during a run and are still present at its end: each arrival
  whose id no later removal names, in the order of arrival.
\<close>

fun kept :: "runtime \<Rightarrow> event list \<Rightarrow> app_state \<Rightarrow> uploaded_file list" where
  "kept rt [] s = []"
| "kept rt (e # es) s =
     filter (\<lambda>f. uf_id f \<notin> set (removals es)) (created rt e s) @ kept rt es (step rt e s)"

text \<open>Every id generated during the run differs from the ids in the registry at that moment.\<close>

fun fresh_ids :: "runtime \<Rightarrow> event list \<Rightarrow> app_state \<Rightarrow> bool" where
  "fresh_ids rt [] s = True"
| "fresh_ids rt (e # es) s =
     (set (map uf_id (created rt e s)) \<inter> set (map uf_id (files s)) = {} \<and>
      fresh_ids rt es (step rt e s))"

text \<open>
  The clock text and the random text that each addition of a run draws, in order, and
  the id made of such a pair.
\<close>

fun draws :: "event list \<Rightarrow> (js_string \<times> js_string) list" where
  "draws [] = []"
| "draws (FileLoaded f content now rnd # es) = (now, rnd) # draws es"
| "draws (UrlSubmitted now rnd # es) = (now, rnd) # draws es"
| "draws (e # es) = draws es"

definition draw_id :: "js_string \<times> js_string \<Rightarrow> js_string" where
  "draw_id d = make_id (fst d) (snd d)"

definition digit_clock :: "js_string \<times> js_string \<Rightarrow> bool" where
  "digit_clock d = list_all is_digit (fst d)"

section \<open>Exports and views\<close>

text \<open>What \<^verbatim>\<open>exportMarkdown\<close> and \<^verbatim>\<open>exportJSON\<close> hand to the browser for download.\<close>

record download =
  blob_parts :: "json list"
  blob_type :: js_string
  download_name :: js_string

text \<open>\<^verbatim>\<open>isoString.split('T')[0]\<close>, where \<open>isoString\<close> is \<^verbatim>\<open>new Date().toISOString()\<close>.\<close>

definition split_T_first :: "js_string \<Rightarrow> js_string" where
  "split_T_first isoString = takeWhile (\<lambda>c. c \<noteq> 0x54) isoString"

text \<open>\<^verbatim>\<open>result?.k\<close>.\<close>

fun result_field :: "json option \<Rightarrow> js_string \<Rightarrow> json option" where
  "result_field None k = None"
| "result_field (Some JNull) k = None"
| "result_field (Some r) k = property r k"

definition exportMarkdown :: "js_string \<Rightarrow> app_state \<Rightarrow> download option" where
  "exportMarkdown isoString s =
     (case result_field (result s) (js ''markdown_output'') of
        None \<Rightarrow> None
      | Some md \<Rightarrow>
          if \<not> truthy md then None
          else Some \<lparr>blob_parts = [md], blob_type = js ''text/markdown'',
                     download_name = js ''literature-review-'' @ split_T_first isoString @ js ''.md''\<rparr>)"

definition exportJSON :: "runtime \<Rightarrow> js_string \<Rightarrow> app_state \<Rightarrow> download option" where
  "exportJSON rt isoString s =
     (case result_field (result s) (js ''json_output'') of
        None \<Rightarrow> None
      | Some jo \<Rightarrow>
          if \<not> truthy jo then None
          else Some \<lparr>blob_parts = [JString (JSON_stringify2 rt jo)],
                     blob_type = js ''application/json'',
                     download_name = js ''literature-review-'' @ split_T_first isoString @ js ''.json''\<rparr>)"

text \<open>The children of the two \<^verbatim>\<open><pre>\<close> elements of the Markdown and JSON tabs.\<close>

definition markdown_view :: "app_state \<Rightarrow> json" where
  "markdown_view s =
     js_nullish (result_field (result s) (js ''markdown_output''))
       (JString (js ''No markdown output available''))"

definition json_view :: "runtime \<Rightarrow> app_state \<Rightarrow> json" where
  "json_view rt s =
     JString (JSON_stringify2 rt (js_nullish (result_field (result s) (js ''json_output'')) (JObject [])))"

section \<open>copyToClipboard and its timers\<close>

text \<open>
  \<^verbatim>\<open>navigator.clipboard\<close> is \<^verbatim>\<open>undefined\<close> outside a secure context; the first line
  of \<^verbatim>\<open>copyToClipboard\<close> then throws a TypeError and neither \<^verbatim>\<open>setCopiedIndex\<close> nor
  \<^verbatim>\<open>setTimeout\<close> is reached.
\<close>

datatype copy_error = ClipboardUnavailable

text \<open>
  \<open>api\<close> says whether \<^verbatim>\<open>navigator.clipboard\<close> is there; \<open>now\<close> is the time of the
  call in ms.
\<close>

definition copyToClipboard ::
  "bool \<Rightarrow> nat \<Rightarrow> json \<Rightarrow> js_string \<Rightarrow> app_state \<Rightarrow> copy_error + app_state" where
  "copyToClipboard api now txt i s =
     (if api
      then Inr (s\<lparr>clipboard := Some txt, copiedIndex := Some i,
                  pending := pending s @ [now + 2000]\<rparr>)
      else Inl ClipboardUnavailable)"

text \<open>The component state after the click: untouched when the handler threw.\<close>

definition after_copy :: "bool \<Rightarrow> nat \<Rightarrow> json \<Rightarrow> js_string \<Rightarrow> app_state \<Rightarrow> app_state" where
  "after_copy api now txt i s =
     (case copyToClipboard api now txt i s of Inl e \<Rightarrow> s | Inr s' \<Rightarrow> s')"

text \<open>
  The browser at time \<open>t\<close>: each pending callback that is due runs
  \<^verbatim>\<open>setCopiedIndex(null)\<close> and leaves the queue.
\<close>

definition run_due :: "nat \<Rightarrow> app_state \<Rightarrow> app_state" where
  "run_due t s =
     (fold (\<lambda>d s'. s'\<lparr>copiedIndex := None\<rparr>) (filter (\<lambda>d. d \<le> t) (pending s)) s)
       \<lparr>pending := filter (\<lambda>d. t < d) (pending s)\<rparr>"

text \<open>\<^verbatim>\<open>copiedIndex === i\<close>, which decides between the labels Copied and Copy.\<close>

definition shows_copied :: "app_state \<Rightarrow> js_string \<Rightarrow> bool" where
  "shows_copied s i = (copiedIndex s = Some i)"

section \<open>Initial state and an instance of the runtime\<close>

text \<open>The initial values of the \<^verbatim>\<open>useState\<close> cells; nothing copied, no timer pending.\<close>

definition initial_state :: app_state where
  "initial_state = \<lparr>files = [], loading = False, result = None, copiedIndex = None,
     urlInput = [], error = None, clipboard = None, pending = []\<rparr>"

definition metadata_text :: js_string where
  "metadata_text = js ''{'' @ [0x22] @ js ''metadata'' @ [0x22] @ js '':{}}''"

text \<open>
  An instance of the runtime for concrete examples. It answers as the real functions do
  on the texts named here and treats every other text as rejected.
\<close>

definition example_runtime :: runtime where
  "example_runtime =
     \<lparr>JSON_parse = (\<lambda>t. if t = metadata_text then Some (JObject [(js ''metadata'', JObject [])])
                         else if t = js ''null'' then Some JNull
                         else None),
      JSON_stringify2 = (\<lambda>v. if v = JObject [] then js ''{}'' else js ''null''),
      URL_constructs = (\<lambda>u. u = js ''https://example.com/paper''),
      null_read_message = js ''Cannot read properties of null''\<rparr>"

section \<open>The submission payload as the specification words it\<close>

fun CATEGORY_UPPERCASED :: "material_type \<Rightarrow> js_string" where
  "CATEGORY_UPPERCASED Doi = js ''DOI''"
| "CATEGORY_UPPERCASED Url = js ''URL''"
| "CATEGORY_UPPERCASED Bibtex = js ''BIBTEX''"
| "CATEGORY_UPPERCASED Pdf = js ''PDF''"

definition spec_line :: "uploaded_file \<Rightarrow> js_string" where
  "spec_line f = js ''['' @ CATEGORY_UPPERCASED (uf_type f) @ js '']: '' @ uf_content f"

text \<open>One line per record in registry order, a blank line between consecutive lines.\<close>

fun spec_payload :: "uploaded_file list \<Rightarrow> js_string" where
  "spec_payload [] = []"
| "spec_payload [f] = spec_line f"
| "spec_payload (f # g # fs) = spec_line f @ [0x0A, 0x0A] @ spec_payload (g # fs)"

section \<open>Facts about the literals\<close>

lemma msgs_distinct: "distinct [msg_failed, msg_no_response, msg_parse, msg_format]"
  by (simp add: msg_failed_def msg_no_response_def msg_parse_def msg_format_def js_def)

lemma key_neq:
  "js ''success'' \<noteq> js ''error''" "js ''success'' \<noteq> js ''response''"
  "js ''response'' \<noteq> js ''success''" "js ''error'' \<noteq> js ''success''"
  "js ''response'' \<noteq> js ''error''" "js ''error'' \<noteq> js ''response''"
  by (simp_all add: js_def)

section \<open>Submission with an empty registry\<close>

text \<open>
  C9, as the claim states it, fails: with an empty registry \<^verbatim>\<open>generateReview\<close> returns at
  its first line. In the initial state, whose registry is empty, no request is built,
  and no error is reported: the error cell is still \<^verbatim>\<open>null\<close> afterwards.
\<close>

theorem empty_registry_reports_nothing:
  "files initial_state = [] \<and>
   snd (generateReview_submit initial_state) = None \<and>
   error (fst (generateReview_submit initial_state)) = None"
  by (simp add: generateReview_submit_def initial_state_def)

text \<open>
  C9, amended: submitting with an empty registry is a silent no-op. No request is built
  or sent and the whole state, the error cell included, is what it was.
\<close>

theorem empty_registry_submit_is_noop:
  assumes "files s = []"
  shows "generateReview_submit s = (s, None)"
  using assms by (simp add: generateReview_submit_def)

theorem empty_registry_submit_is_noop_witness:
  "files initial_state = [] \<and> generateReview_submit initial_state = (initial_state, None)"
proof -
  have h: "files initial_state = []" by (simp add: initial_state_def)
  show ?thesis using h empty_registry_submit_is_noop [OF h] by simp
qed

section \<open>Validation of the envelope\<close>

lemma settle_SetError:
  "validate rt data = SetError m \<Longrightarrow>
   generateReview_settle rt (Resolved data) s = s\<lparr>error := Some m, loading := False\<rparr>"
  by (simp add: generateReview_settle_def apply_outcome_def)

lemma settle_SetResult:
  "validate rt data = SetResult r \<Longrightarrow>
   generateReview_settle rt (Resolved data) s = s\<lparr>result := Some r, loading := False\<rparr>"
  by (simp add: generateReview_settle_def apply_outcome_def)

lemma validate_step1:
  "data \<noteq> JNull \<Longrightarrow> \<not> truthy_opt (property data (js ''success'')) \<Longrightarrow>
   validate rt data = SetError (js_or (property data (js ''error'')) msg_failed)"
  by (simp add: validate_def)

lemma validate_step2:
  "truthy_opt (property data (js ''success'')) \<Longrightarrow>
   \<not> truthy_opt (property data (js ''response'')) \<Longrightarrow>
   validate rt data = SetError msg_no_response"
  by (cases data) (auto simp: validate_def split: option.splits)

lemma validate_step3:
  "truthy_opt (property data (js ''success'')) \<Longrightarrow>
   property data (js ''response'') = Some (JString raw) \<Longrightarrow> raw \<noteq> [] \<Longrightarrow>
   JSON_parse rt raw = None \<Longrightarrow>
   validate rt data = SetError msg_parse"
  by (cases data) (auto simp: validate_def split: option.splits)

lemma validate_step4:
  "truthy_opt (property data (js ''success'')) \<Longrightarrow>
   property data (js ''response'') = Some payload \<Longrightarrow> truthy payload \<Longrightarrow>
   parse_response rt payload = Some parsed \<Longrightarrow>
   \<not> truthy parsed \<or> \<not> truthy_opt (property parsed (js ''metadata'')) \<Longrightarrow>
   validate rt data = SetError msg_format"
  by (cases data) (auto simp: validate_def split: option.splits)

lemma validate_accept:
  "truthy_opt (property data (js ''success'')) \<Longrightarrow>
   property data (js ''response'') = Some payload \<Longrightarrow> truthy payload \<Longrightarrow>
   parse_response rt payload = Some parsed \<Longrightarrow>
   truthy parsed \<Longrightarrow> truthy_opt (property parsed (js ''metadata'')) \<Longrightarrow>
   validate rt data = SetResult parsed"
  by (cases data) (auto simp: validate_def split: option.splits)

text \<open>
  C10: an envelope whose success flag is truthy and whose \<^verbatim>\<open>response\<close> is the empty
  string is rejected by the missing-payload check, with the message
  \<^verbatim>\<open>No response from agent\<close> and not the parse error; \<^verbatim>\<open>JSON.parse\<close> is not consulted
  (the statement holds for every runtime), and the canonical result stays as it was.
  The same holds for every falsy payload: absent, \<^verbatim>\<open>null\<close>, \<^verbatim>\<open>false\<close>, zero.
\<close>

theorem empty_text_payload_is_no_response:
  assumes "truthy_opt (property data (js ''success''))"
    and "property data (js ''response'') = Some (JString [])"
  shows "generateReview_settle rt (Resolved data) s =
           s\<lparr>error := Some msg_no_response, loading := False\<rparr>
       \<and> result (generateReview_settle rt (Resolved data) s) = result s
       \<and> msg_no_response \<noteq> msg_parse
       \<and> (truthy_opt (property other (js ''success'')) \<and>
          \<not> truthy_opt (property other (js ''response'')) \<longrightarrow>
            generateReview_settle rt (Resolved other) s =
              s\<lparr>error := Some msg_no_response, loading := False\<rparr>)"
proof -
  from assms have "validate rt data = SetError msg_no_response"
    by (simp add: validate_step2)
  then have a: "generateReview_settle rt (Resolved data) s =
      s\<lparr>error := Some msg_no_response, loading := False\<rparr>"
    by (rule settle_SetError)
  have b: "msg_no_response \<noteq> msg_parse"
    using msgs_distinct by simp
  have c: "truthy_opt (property other (js ''success'')) \<and>
          \<not> truthy_opt (property other (js ''response'')) \<longrightarrow>
            generateReview_settle rt (Resolved other) s =
              s\<lparr>error := Some msg_no_response, loading := False\<rparr>"
    by (simp add: validate_step2 settle_SetError)
  from a b c show ?thesis by simp
qed

theorem empty_text_payload_is_no_response_witness:
  "generateReview_settle example_runtime
     (Resolved (JObject [(js ''success'', JBool True), (js ''response'', JString [])]))
     initial_state
   = initial_state\<lparr>error := Some msg_no_response, loading := False\<rparr>
 \<and> generateReview_settle example_runtime
     (Resolved (JObject [(js ''success'', JBool True), (js ''response'', JNumber (Finite 0))]))
     initial_state
   = initial_state\<lparr>error := Some msg_no_response, loading := False\<rparr>"
proof -
  let ?data = "JObject [(js ''success'', JBool True), (js ''response'', JString [])]"
  let ?other = "JObject [(js ''success'', JBool True), (js ''response'', JNumber (Finite 0))]"
  have h1: "truthy_opt (property ?data (js ''success''))" by simp
  have h2: "property ?data (js ''response'') = Some (JString [])" by (simp add: key_neq)
  have h3: "truthy_opt (property ?other (js ''success''))" by simp
  have h4: "\<not> truthy_opt (property ?other (js ''response''))" by (simp add: key_neq)
  show ?thesis
    using empty_text_payload_is_no_response
      [OF h1 h2, where rt = example_runtime and s = initial_state and other = ?other] h3 h4
    by simp
qed

text \<open>
  C1: the checks run in order and the first that fails decides. A false success flag
  reports the engine's error text (or the fallback), a missing, null or otherwise falsy
  payload reports \<^verbatim>\<open>No response from agent\<close>, a textual payload that \<^verbatim>\<open>JSON.parse\<close>
  rejects reports the parse error, and a deserialized value that is null (falsy) or has
  no (or a falsy) \<^verbatim>\<open>metadata\<close> reports the format error. The four messages of the page
  are pairwise distinct, and whenever validation does not accept, the canonical result
  is the one held before, \<^verbatim>\<open>null\<close> included.
\<close>

theorem failed_validation_keeps_result:
  assumes "data \<noteq> JNull"
  shows
    "(\<not> truthy_opt (property data (js ''success'')) \<longrightarrow>
        generateReview_settle rt (Resolved data) s =
          s\<lparr>error := Some (js_or (property data (js ''error'')) msg_failed), loading := False\<rparr>)
   \<and> (truthy_opt (property data (js ''success'')) \<and>
      \<not> truthy_opt (property data (js ''response'')) \<longrightarrow>
        generateReview_settle rt (Resolved data) s =
          s\<lparr>error := Some msg_no_response, loading := False\<rparr>)
   \<and> (truthy_opt (property data (js ''success'')) \<and>
      property data (js ''response'') = Some (JString raw) \<and> raw \<noteq> [] \<and>
      JSON_parse rt raw = None \<longrightarrow>
        generateReview_settle rt (Resolved data) s =
          s\<lparr>error := Some msg_parse, loading := False\<rparr>)
   \<and> (truthy_opt (property data (js ''success'')) \<and>
      property data (js ''response'') = Some payload \<and> truthy payload \<and>
      parse_response rt payload = Some parsed \<and>
      (\<not> truthy parsed \<or> \<not> truthy_opt (property parsed (js ''metadata''))) \<longrightarrow>
        generateReview_settle rt (Resolved data) s =
          s\<lparr>error := Some msg_format, loading := False\<rparr>)
   \<and> ((\<forall>r. validate rt data \<noteq> SetResult r) \<longrightarrow>
        result (generateReview_settle rt (Resolved data) s) = result s)
   \<and> distinct [msg_failed, msg_no_response, msg_parse, msg_format]"
proof (intro conjI impI)
  assume "\<not> truthy_opt (property data (js ''success''))"
  with assms show "generateReview_settle rt (Resolved data) s =
      s\<lparr>error := Some (js_or (property data (js ''error'')) msg_failed), loading := False\<rparr>"
    by (simp add: validate_step1 settle_SetError)
next
  assume "truthy_opt (property data (js ''success'')) \<and>
      \<not> truthy_opt (property data (js ''response''))"
  then show "generateReview_settle rt (Resolved data) s =
      s\<lparr>error := Some msg_no_response, loading := False\<rparr>"
    by (simp add: validate_step2 settle_SetError)
next
  assume "truthy_opt (property data (js ''success'')) \<and>
      property data (js ''response'') = Some (JString raw) \<and> raw \<noteq> [] \<and>
      JSON_parse rt raw = None"
  then show "generateReview_settle rt (Resolved data) s =
      s\<lparr>error := Some msg_parse, loading := False\<rparr>"
    by (simp add: validate_step3 settle_SetError)
next
  assume "truthy_opt (property data (js ''success'')) \<and>
      property data (js ''response'') = Some payload \<and> truthy payload \<and>
      parse_response rt payload = Some parsed \<and>
      (\<not> truthy parsed \<or> \<not> truthy_opt (property parsed (js ''metadata'')))"
  then show "generateReview_settle rt (Resolved data) s =
      s\<lparr>error := Some msg_format, loading := False\<rparr>"
    by (simp add: validate_step4 [of data payload rt parsed] settle_SetError)
next
  assume "\<forall>r. validate rt data \<noteq> SetResult r"
  then show "result (generateReview_settle rt (Resolved data) s) = result s"
    by (cases "validate rt data") (simp_all add: generateReview_settle_def apply_outcome_def)
next
  show "distinct [msg_failed, msg_no_response, msg_parse, msg_format]"
    by (rule msgs_distinct)
qed


lemma example_parse:
  "JSON_parse example_runtime metadata_text = Some (JObject [(js ''metadata'', JObject [])])"
  "JSON_parse example_runtime (js ''not json'') = None"
  "JSON_parse example_runtime (js ''null'') = Some JNull"
  by (simp_all add: example_runtime_def metadata_text_def js_def)

theorem failed_validation_keeps_result_witness:
  "generateReview_settle example_runtime (Resolved (JObject [(js ''success'', JBool False)]))
     (initial_state\<lparr>result := Some (JObject [(js ''metadata'', JObject [])])\<rparr>)
   = initial_state\<lparr>result := Some (JObject [(js ''metadata'', JObject [])]),
       error := Some msg_failed, loading := False\<rparr>
 \<and> generateReview_settle example_runtime (Resolved (JObject [(js ''success'', JBool True)]))
     (initial_state\<lparr>result := Some (JObject [(js ''metadata'', JObject [])])\<rparr>)
   = initial_state\<lparr>result := Some (JObject [(js ''metadata'', JObject [])]),
       error := Some msg_no_response, loading := False\<rparr>
 \<and> generateReview_settle example_runtime
     (Resolved (JObject [(js ''success'', JBool True), (js ''response'', JString (js ''not json''))]))
     (initial_state\<lparr>result := Some (JObject [(js ''metadata'', JObject [])])\<rparr>)
   = initial_state\<lparr>result := Some (JObject [(js ''metadata'', JObject [])]),
       error := Some msg_parse, loading := False\<rparr>
 \<and> generateReview_settle example_runtime
     (Resolved (JObject [(js ''success'', JBool True), (js ''response'', JString (js ''null''))]))
     (initial_state\<lparr>result := Some (JObject [(js ''metadata'', JObject [])])\<rparr>)
   = initial_state\<lparr>result := Some (JObject [(js ''metadata'', JObject [])]),
       error := Some msg_format, loading := False\<rparr>"
proof -
  let ?s = "initial_state\<lparr>result := Some (JObject [(js ''metadata'', JObject [])])\<rparr>"
  let ?d1 = "JObject [(js ''success'', JBool False)]"
  let ?d2 = "JObject [(js ''success'', JBool True)]"
  let ?d3 = "JObject [(js ''success'', JBool True), (js ''response'', JString (js ''not json''))]"
  let ?d4 = "JObject [(js ''success'', JBool True), (js ''response'', JString (js ''null''))]"
  have n: "?d1 \<noteq> JNull" "?d2 \<noteq> JNull" "?d3 \<noteq> JNull" "?d4 \<noteq> JNull" by simp_all
  have nj: "js ''not json'' \<noteq> []" "js ''null'' \<noteq> []" by (simp_all add: js_def)
  have c1: "generateReview_settle example_runtime (Resolved ?d1) ?s =
      ?s\<lparr>error := Some msg_failed, loading := False\<rparr>"
    using failed_validation_keeps_result [OF n(1), where rt = example_runtime and s = ?s]
    by (simp add: key_neq)
  have c2: "generateReview_settle example_runtime (Resolved ?d2) ?s =
      ?s\<lparr>error := Some msg_no_response, loading := False\<rparr>"
    using failed_validation_keeps_result [OF n(2), where rt = example_runtime and s = ?s]
    by (simp add: key_neq)
  have c3: "generateReview_settle example_runtime (Resolved ?d3) ?s =
      ?s\<lparr>error := Some msg_parse, loading := False\<rparr>"
    using failed_validation_keeps_result
      [OF n(3), where rt = example_runtime and s = ?s and raw = "js ''not json''"]
    by (simp add: key_neq example_parse nj)
  have c4: "generateReview_settle example_runtime (Resolved ?d4) ?s =
      ?s\<lparr>error := Some msg_format, loading := False\<rparr>"
    using failed_validation_keeps_result
      [OF n(4), where rt = example_runtime and s = ?s and payload = "JString (js ''null'')"
        and parsed = JNull]
    by (simp add: key_neq example_parse nj)
  from c1 c2 c3 c4 show ?thesis by (simp add: initial_state_def)
qed

text \<open>
  C2: the success flag is looked at first, whatever else the envelope holds (a non-empty
  engine error text is reported as it is, the fallback when there is none), then the
  presence of the payload, then deserialization, then \<^verbatim>\<open>metadata\<close>. The envelopes
  \<^verbatim>\<open>{success:false}\<close> and \<^verbatim>\<open>{success:true, response:null}\<close> are rejected with two
  different messages. When \<^verbatim>\<open>JSON.parse\<close> reads the text \<^verbatim>\<open>{"metadata":{}}\<close> as the
  object with an empty \<^verbatim>\<open>metadata\<close> object, \<^verbatim>\<open>{success:true, response:"{\"metadata\":{}}"}\<close>
  is accepted and the result cell is overwritten with exactly that object, whatever it
  held before.
\<close>

theorem validator_order_and_examples:
  "(e \<noteq> [] \<longrightarrow>
      validate rt (JObject ((js ''success'', JBool False) # (js ''error'', JString e) # rest))
        = SetError (JString e))
 \<and> (map_of rest (js ''error'') = None \<longrightarrow>
      validate rt (JObject ((js ''success'', JBool False) # rest)) = SetError msg_failed)
 \<and> validate rt (JObject ((js ''success'', JBool True) # (js ''response'', JNull) # rest))
      = SetError msg_no_response
 \<and> (map_of rest (js ''response'') = None \<longrightarrow>
      validate rt (JObject ((js ''success'', JBool True) # rest)) = SetError msg_no_response)
 \<and> (raw \<noteq> [] \<and> JSON_parse rt raw = None \<longrightarrow>
      validate rt (JObject ((js ''success'', JBool True) # (js ''response'', JString raw) # rest))
        = SetError msg_parse)
 \<and> (raw \<noteq> [] \<and> JSON_parse rt raw = Some parsed \<and> property parsed (js ''metadata'') = None \<longrightarrow>
      validate rt (JObject ((js ''success'', JBool True) # (js ''response'', JString raw) # rest))
        = SetError msg_format)
 \<and> generateReview_settle rt (Resolved (JObject [(js ''success'', JBool False)])) s
      = s\<lparr>error := Some msg_failed, loading := False\<rparr>
 \<and> generateReview_settle rt
      (Resolved (JObject [(js ''success'', JBool True), (js ''response'', JNull)])) s
      = s\<lparr>error := Some msg_no_response, loading := False\<rparr>
 \<and> msg_failed \<noteq> msg_no_response
 \<and> (JSON_parse rt metadata_text = Some (JObject [(js ''metadata'', JObject [])]) \<longrightarrow>
      generateReview_settle rt
        (Resolved (JObject [(js ''success'', JBool True), (js ''response'', JString metadata_text)])) s
        = s\<lparr>result := Some (JObject [(js ''metadata'', JObject [])]), loading := False\<rparr>
      \<and> result_field
          (result (generateReview_settle rt
            (Resolved (JObject [(js ''success'', JBool True),
               (js ''response'', JString metadata_text)])) s))
          (js ''metadata'') = Some (JObject []))"
proof -
  have mt: "metadata_text \<noteq> []" by (simp add: metadata_text_def js_def)
  have a: "e \<noteq> [] \<longrightarrow>
      validate rt (JObject ((js ''success'', JBool False) # (js ''error'', JString e) # rest))
        = SetError (JString e)"
    by (simp add: validate_def key_neq)
  have b: "map_of rest (js ''error'') = None \<longrightarrow>
      validate rt (JObject ((js ''success'', JBool False) # rest)) = SetError msg_failed"
    by (simp add: validate_def key_neq)
  have c: "validate rt (JObject ((js ''success'', JBool True) # (js ''response'', JNull) # rest))
      = SetError msg_no_response"
    by (simp add: validate_def key_neq)
  have d: "map_of rest (js ''response'') = None \<longrightarrow>
      validate rt (JObject ((js ''success'', JBool True) # rest)) = SetError msg_no_response"
    by (simp add: validate_def key_neq)
  have f: "raw \<noteq> [] \<and> JSON_parse rt raw = None \<longrightarrow>
      validate rt (JObject ((js ''success'', JBool True) # (js ''response'', JString raw) # rest))
        = SetError msg_parse"
    by (simp add: validate_def key_neq)
  have g: "raw \<noteq> [] \<and> JSON_parse rt raw = Some parsed \<and> property parsed (js ''metadata'') = None \<longrightarrow>
      validate rt (JObject ((js ''success'', JBool True) # (js ''response'', JString raw) # rest))
        = SetError msg_format"
    by (simp add: validate_def key_neq)
  have h: "generateReview_settle rt (Resolved (JObject [(js ''success'', JBool False)])) s
      = s\<lparr>error := Some msg_failed, loading := False\<rparr>"
    by (rule settle_SetError) (simp add: validate_def key_neq)
  have i: "generateReview_settle rt
      (Resolved (JObject [(js ''success'', JBool True), (js ''response'', JNull)])) s
      = s\<lparr>error := Some msg_no_response, loading := False\<rparr>"
    by (rule settle_SetError) (simp add: validate_def key_neq)
  have j: "msg_failed \<noteq> msg_no_response"
    using msgs_distinct by simp
  have k: "JSON_parse rt metadata_text = Some (JObject [(js ''metadata'', JObject [])]) \<longrightarrow>
      generateReview_settle rt
        (Resolved (JObject [(js ''success'', JBool True), (js ''response'', JString metadata_text)])) s
        = s\<lparr>result := Some (JObject [(js ''metadata'', JObject [])]), loading := False\<rparr>"
  proof
    assume p: "JSON_parse rt metadata_text = Some (JObject [(js ''metadata'', JObject [])])"
    show "generateReview_settle rt
        (Resolved (JObject [(js ''success'', JBool True), (js ''response'', JString metadata_text)])) s
        = s\<lparr>result := Some (JObject [(js ''metadata'', JObject [])]), loading := False\<rparr>"
      by (rule settle_SetResult) (simp add: validate_def key_neq mt p)
  qed
  from a b c d f g h i j k show ?thesis by simp
qed

theorem validator_order_and_examples_witness:
  "validate example_runtime
     (JObject [(js ''success'', JBool False), (js ''error'', JString (js ''quota exceeded'')),
               (js ''response'', JNull)])
     = SetError (JString (js ''quota exceeded''))
 \<and> validate example_runtime (JObject [(js ''success'', JBool False), (js ''response'', JNull)])
     = SetError msg_failed
 \<and> validate example_runtime (JObject [(js ''success'', JBool True)]) = SetError msg_no_response
 \<and> validate example_runtime
     (JObject [(js ''success'', JBool True), (js ''response'', JString (js ''not json''))])
     = SetError msg_parse
 \<and> validate example_runtime
     (JObject [(js ''success'', JBool True), (js ''response'', JString (js ''null''))])
     = SetError msg_format
 \<and> generateReview_settle example_runtime
     (Resolved (JObject [(js ''success'', JBool True), (js ''response'', JString metadata_text)]))
     (initial_state\<lparr>result := Some (JObject [(js ''metadata'', JBool True), (js ''status'', JNull)])\<rparr>)
     = initial_state\<lparr>result := Some (JObject [(js ''metadata'', JObject [])])\<rparr>"
proof -
  let ?s = "initial_state\<lparr>result := Some (JObject [(js ''metadata'', JBool True), (js ''status'', JNull)])\<rparr>"
  have nj: "js ''not json'' \<noteq> []" "js ''null'' \<noteq> []" "js ''quota exceeded'' \<noteq> []"
    by (simp_all add: js_def)
  have k2: "js ''response'' \<noteq> js ''error''" by (rule key_neq)
  note t1 = validator_order_and_examples
    [where e = "js ''quota exceeded''" and rt = example_runtime
      and rest = "[(js ''response'', JNull)]" and s = ?s]
  note t2 = validator_order_and_examples
    [where rt = example_runtime and rest = "[(js ''response'', JNull)]" and s = ?s]
  note t3 = validator_order_and_examples
    [where rt = example_runtime and rest = "[]" and raw = "js ''null''" and parsed = JNull
      and s = ?s]
  note t4 = validator_order_and_examples
    [where rt = example_runtime and rest = "[]" and raw = "js ''not json''" and s = ?s]
  have c1: "validate example_runtime
     (JObject [(js ''success'', JBool False), (js ''error'', JString (js ''quota exceeded'')),
               (js ''response'', JNull)]) = SetError (JString (js ''quota exceeded''))"
    using t1 nj by simp
  have c2: "validate example_runtime (JObject [(js ''success'', JBool False), (js ''response'', JNull)])
     = SetError msg_failed"
    using t2 key_neq by simp
  have c3: "validate example_runtime (JObject [(js ''success'', JBool True)]) = SetError msg_no_response"
    using t3 by simp
  have c4: "validate example_runtime
     (JObject [(js ''success'', JBool True), (js ''response'', JString (js ''not json''))])
     = SetError msg_parse"
    using t4 nj example_parse by simp
  have c5: "validate example_runtime
     (JObject [(js ''success'', JBool True), (js ''response'', JString (js ''null''))])
     = SetError msg_format"
    using t3 nj example_parse by simp
  have c6: "generateReview_settle example_runtime
     (Resolved (JObject [(js ''success'', JBool True), (js ''response'', JString metadata_text)])) ?s
     = ?s\<lparr>result := Some (JObject [(js ''metadata'', JObject [])]), loading := False\<rparr>"
    using t3 example_parse by simp
  from c1 c2 c3 c4 c5 c6 show ?thesis by (simp add: initial_state_def)
qed

section \<open>Classification of a loaded file\<close>

lemma startsWith_iff: "startsWith s p \<longleftrightarrow> (\<exists>rest. s = p @ rest)"
proof
  assume "startsWith s p"
  then have "s = p @ drop (length p) s"
    by (metis append_take_drop_id startsWith_def)
  then show "\<exists>rest. s = p @ rest" ..
next
  assume "\<exists>rest. s = p @ rest"
  then show "startsWith s p" by (auto simp: startsWith_def)
qed

lemma match_doi_iff:
  "match_doi s \<longleftrightarrow> (\<exists>d rest. s = js ''10.'' @ d # rest \<and> 0x30 \<le> d \<and> d \<le> 0x39)"
proof
  assume m: "match_doi s"
  then obtain r where s: "s = js ''10.'' @ r"
    by (auto simp: match_doi_def startsWith_iff)
  have "length (js ''10.'') = 3" by (simp add: js_def)
  with s have "drop 3 s = r" by simp
  with m obtain d rest where "r = d # rest" "is_digit d"
    by (auto simp: match_doi_def split: list.splits)
  with s show "\<exists>d rest. s = js ''10.'' @ d # rest \<and> 0x30 \<le> d \<and> d \<le> 0x39"
    by (auto simp: is_digit_def)
next
  assume "\<exists>d rest. s = js ''10.'' @ d # rest \<and> 0x30 \<le> d \<and> d \<le> 0x39"
  then obtain d rest where s: "s = js ''10.'' @ d # rest" and d: "0x30 \<le> d" "d \<le> 0x39"
    by blast
  have "length (js ''10.'') = 3" by (simp add: js_def)
  with s have "drop 3 s = d # rest" by simp
  moreover have "startsWith s (js ''10.'')" using s by (auto simp: startsWith_iff)
  ultimately show "match_doi s" using d by (simp add: match_doi_def is_digit_def)
qed

text \<open>
  C3, as the claim states it, fails: the handler tests the content as read, it never
  trims it. For a file with an unrecognized name and no declared type whose content is
  \<^verbatim>\<open>" http://example.org/a"\<close>, the trimmed content begins with \<^verbatim>\<open>http\<close>, yet the
  type assigned is \<^verbatim>\<open>pdf\<close>, not \<^verbatim>\<open>url\<close>.
\<close>

theorem classify_ignores_leading_white_space:
  "\<not> endsWith (js ''paper.dat'') (js ''.bib'') \<and> [] \<noteq> js ''text/plain''
   \<and> [] \<noteq> js ''application/pdf''
   \<and> startsWith (trim (js '' http://example.org/a'')) (js ''http'')
   \<and> classify \<lparr>file_name = js ''paper.dat'', file_mime = []\<rparr> (js '' http://example.org/a'') = Pdf"
  by (simp add: classify_def endsWith_def startsWith_def match_doi_def trim_def is_white_def js_def)

text \<open>
  C3, amended: when neither rule 1 nor rule 2 applies, the type is \<^verbatim>\<open>url\<close> when the
  content itself, untrimmed, begins with \<^verbatim>\<open>http\<close>, otherwise \<^verbatim>\<open>doi\<close> when the content
  itself begins with \<^verbatim>\<open>10.\<close> followed by a digit, otherwise \<^verbatim>\<open>pdf\<close>; empty content
  with no filename and no declared type is \<^verbatim>\<open>pdf\<close>.
\<close>

theorem classify_content_rules:
  assumes "\<not> (endsWith (file_name f) (js ''.bib'') \<or> file_mime f = js ''text/plain'')"
    and "file_mime f \<noteq> js ''application/pdf''"
  shows "classify f content =
     (if (\<exists>rest. content = js ''http'' @ rest) then Url
      else if (\<exists>d rest. content = js ''10.'' @ d # rest \<and> 0x30 \<le> d \<and> d \<le> 0x39) then Doi
      else Pdf)
   \<and> classify \<lparr>file_name = [], file_mime = []\<rparr> [] = Pdf"
proof -
  have "classify f content =
     (if startsWith content (js ''http'') then Url else if match_doi content then Doi else Pdf)"
    using assms by (simp add: classify_def)
  moreover have "classify \<lparr>file_name = [], file_mime = []\<rparr> [] = Pdf"
    by (simp add: classify_def endsWith_def startsWith_def match_doi_def js_def)
  ultimately show ?thesis
    by (simp only: startsWith_iff match_doi_iff simp_thms)
qed

theorem classify_content_rules_witness:
  "classify \<lparr>file_name = js ''paper.dat'', file_mime = []\<rparr> (js ''http://example.org/a'') = Url
 \<and> classify \<lparr>file_name = js ''paper.dat'', file_mime = []\<rparr> (js ''10.1000/xyz'') = Doi
 \<and> classify \<lparr>file_name = js ''paper.dat'', file_mime = []\<rparr> (js ''see 10.1000/xyz'') = Pdf"
proof -
  let ?f = "\<lparr>file_name = js ''paper.dat'', file_mime = []\<rparr>"
  have h1: "\<not> (endsWith (file_name ?f) (js ''.bib'') \<or> file_mime ?f = js ''text/plain'')"
    by (simp add: endsWith_def js_def)
  have h2: "file_mime ?f \<noteq> js ''application/pdf''" by (simp add: js_def)
  have a: "classify ?f (js ''http://example.org/a'') = Url"
    using classify_content_rules [OF h1 h2, of "js ''http://example.org/a''"]
    by (simp add: js_def)
  have b: "classify ?f (js ''10.1000/xyz'') = Doi"
    using classify_content_rules [OF h1 h2, of "js ''10.1000/xyz''"]
    by (simp add: js_def)
  have c: "classify ?f (js ''see 10.1000/xyz'') = Pdf"
    using classify_content_rules [OF h1 h2, of "js ''see 10.1000/xyz''"]
    by (simp add: js_def)
  from a b c show ?thesis by simp
qed

section \<open>The submission payload\<close>

lemma foldl_sep: "foldl (\<lambda>R e. R @ sep @ e) acc xs = acc @ concat (map (\<lambda>e. sep @ e) xs)"
  by (induction xs arbitrary: acc) simp_all

lemma format_file_spec_line: "format_file f = spec_line f"
  by (cases "uf_type f") (simp_all add: format_file_def spec_line_def toUpperCase_def js_def)

lemma spec_payload_Cons:
  "spec_payload (f # fs) = spec_line f @ concat (map (\<lambda>g. [0x0A, 0x0A] @ spec_line g) fs)"
  by (induction fs arbitrary: f) simp_all

lemma join_Cons: "join sep (x # xs) = x @ concat (map (\<lambda>e. sep @ e) xs)"
  by (simp add: foldl_sep)

lemma formattedInput_spec:
  assumes "fs \<noteq> []"
  shows "formattedInput fs = spec_payload fs"
proof (cases fs)
  case Nil
  with assms show ?thesis by simp
next
  case (Cons f gs)
  have "formattedInput fs =
      format_file f @ concat (map (\<lambda>e. [0x0A, 0x0A] @ e) (map format_file gs))"
    unfolding formattedInput_def Cons list.map join_Cons ..
  also have "\<dots> = spec_payload fs"
    by (simp add: Cons spec_payload_Cons format_file_spec_line comp_def)
  finally show ?thesis .
qed

text \<open>
  C4: for a non-empty registry the text built by \<^verbatim>\<open>files.map(...).join('\n\n')\<close> is one
  line \<^verbatim>\<open>[CATEGORY]: content\<close> per record, in registry order, with a blank line between
  consecutive lines; it is what the request carries after the fixed task description.
  For the records (bibtex, \<^verbatim>\<open>X\<close>) and (doi, \<^verbatim>\<open>10.123\<close>) it is
  \<^verbatim>\<open>[BIBTEX]: X\n\n[DOI]: 10.123\<close>.
\<close>

theorem payload_is_lines_with_blank_lines:
  assumes "fs \<noteq> []"
  shows "formattedInput fs = spec_payload fs
   \<and> snd (generateReview_submit (s\<lparr>files := fs\<rparr>)) =
       Some \<lparr>message = task_text @ spec_payload fs, agent_id = js ''6901b293cb70cd01d3072e42''\<rparr>
   \<and> formattedInput
       [\<lparr>uf_id = i1, uf_name = n1, uf_type = Bibtex, uf_content = js ''X''\<rparr>,
        \<lparr>uf_id = i2, uf_name = n2, uf_type = Doi, uf_content = js ''10.123''\<rparr>]
       = js ''[BIBTEX]: X'' @ [0x0A, 0x0A] @ js ''[DOI]: 10.123''"
proof -
  have a: "formattedInput fs = spec_payload fs"
    using assms by (rule formattedInput_spec)
  have b: "snd (generateReview_submit (s\<lparr>files := fs\<rparr>)) =
       Some \<lparr>message = task_text @ spec_payload fs, agent_id = js ''6901b293cb70cd01d3072e42''\<rparr>"
    using assms a by (simp add: generateReview_submit_def)
  have c: "formattedInput
       [\<lparr>uf_id = i1, uf_name = n1, uf_type = Bibtex, uf_content = js ''X''\<rparr>,
        \<lparr>uf_id = i2, uf_name = n2, uf_type = Doi, uf_content = js ''10.123''\<rparr>]
       = js ''[BIBTEX]: X'' @ [0x0A, 0x0A] @ js ''[DOI]: 10.123''"
    by (simp add: formattedInput_def format_file_def toUpperCase_def js_def)
  from a b c show ?thesis by simp
qed

theorem payload_is_lines_with_blank_lines_witness:
  "formattedInput
     [\<lparr>uf_id = js ''1-0.5'', uf_name = js ''refs.bib'', uf_type = Bibtex, uf_content = js ''X''\<rparr>,
      \<lparr>uf_id = js ''2-0.25'', uf_name = js ''d.txt'', uf_type = Doi, uf_content = js ''10.123''\<rparr>,
      \<lparr>uf_id = js ''3-0.75'', uf_name = js ''u'', uf_type = Url, uf_content = js ''http://a''\<rparr>]
   = js ''[BIBTEX]: X'' @ [0x0A, 0x0A] @ js ''[DOI]: 10.123'' @ [0x0A, 0x0A] @ js ''[URL]: http://a''"
proof -
  let ?fs = "[\<lparr>uf_id = js ''1-0.5'', uf_name = js ''refs.bib'', uf_type = Bibtex, uf_content = js ''X''\<rparr>,
      \<lparr>uf_id = js ''2-0.25'', uf_name = js ''d.txt'', uf_type = Doi, uf_content = js ''10.123''\<rparr>,
      \<lparr>uf_id = js ''3-0.75'', uf_name = js ''u'', uf_type = Url, uf_content = js ''http://a''\<rparr>]"
  have h: "?fs \<noteq> []" by simp
  show ?thesis
    using payload_is_lines_with_blank_lines [OF h]
    by (simp add: spec_line_def js_def)
qed

section \<open>Admission of a URL\<close>

text \<open>
  C8, as the claim states it, fails: \<^verbatim>\<open>addUrl\<close> returns at once when the trimmed input
  is empty. For the input \<^verbatim>\<open>" "\<close>, whose trimmed form is the empty string and is no
  URL, the registry is unchanged, but the buffer still holds \<^verbatim>\<open>" "\<close>.
\<close>

theorem blank_input_keeps_buffer:
  "\<not> URL_constructs example_runtime (trim (js '' ''))
 \<and> files (addUrl example_runtime (js ''1730000000000'') (js ''0.5'')
      (initial_state\<lparr>urlInput := js '' ''\<rparr>)) = []
 \<and> urlInput (addUrl example_runtime (js ''1730000000000'') (js ''0.5'')
      (initial_state\<lparr>urlInput := js '' ''\<rparr>)) = js '' ''
 \<and> js '' '' \<noteq> []"
  by (simp add: addUrl_def trim_def is_white_def example_runtime_def initial_state_def js_def)

text \<open>
  C8, amended: when the trimmed input is empty, \<^verbatim>\<open>addUrl\<close> changes nothing, the buffer
  included. When it is not empty and \<^verbatim>\<open>new URL\<close> rejects it, the registry is unchanged
  and the buffer is cleared. When \<^verbatim>\<open>new URL\<close> accepts it, one record of type
  \<^verbatim>\<open>url\<close>, whose name and content are the trimmed input, is appended and the buffer
  is cleared.
\<close>

theorem addUrl_cases:
  "(trim (urlInput s) = [] \<longrightarrow> addUrl rt now rnd s = s)
 \<and> (trim (urlInput s) \<noteq> [] \<and> \<not> URL_constructs rt (trim (urlInput s)) \<longrightarrow>
      addUrl rt now rnd s = s\<lparr>urlInput := []\<rparr>
      \<and> files (addUrl rt now rnd s) = files s \<and> urlInput (addUrl rt now rnd s) = [])
 \<and> (trim (urlInput s) \<noteq> [] \<and> URL_constructs rt (trim (urlInput s)) \<longrightarrow>
      files (addUrl rt now rnd s) =
        files s @ [\<lparr>uf_id = make_id now rnd, uf_name = trim (urlInput s), uf_type = Url,
                    uf_content = trim (urlInput s)\<rparr>]
      \<and> urlInput (addUrl rt now rnd s) = []
      \<and> addUrl rt now rnd s =
          s\<lparr>files := files s @ [new_url (trim (urlInput s)) now rnd], urlInput := []\<rparr>)"
  by (simp add: addUrl_def new_url_def)

theorem addUrl_cases_witness:
  "addUrl example_runtime (js ''1730000000000'') (js ''0.5'') (initial_state\<lparr>urlInput := js ''  ''\<rparr>)
     = initial_state\<lparr>urlInput := js ''  ''\<rparr>
 \<and> addUrl example_runtime (js ''1730000000000'') (js ''0.5'')
     (initial_state\<lparr>urlInput := js ''not-a-url''\<rparr>) = initial_state
 \<and> files (addUrl example_runtime (js ''1730000000000'') (js ''0.5'')
     (initial_state\<lparr>urlInput := js '' https://example.com/paper''\<rparr>))
     = [\<lparr>uf_id = js ''1730000000000-0.5'', uf_name = js ''https://example.com/paper'',
         uf_type = Url, uf_content = js ''https://example.com/paper''\<rparr>]
 \<and> urlInput (addUrl example_runtime (js ''1730000000000'') (js ''0.5'')
     (initial_state\<lparr>urlInput := js '' https://example.com/paper''\<rparr>)) = []"
proof -
  let ?n = "js ''1730000000000''" and ?r = "js ''0.5''"
  have t1: "trim (js ''  '') = []" by (simp add: trim_def is_white_def js_def)
  have t2: "trim (js ''not-a-url'') = js ''not-a-url''" by (simp add: trim_def is_white_def js_def)
  have t3: "trim (js '' https://example.com/paper'') = js ''https://example.com/paper''"
    by (simp add: trim_def is_white_def js_def)
  have u2: "\<not> URL_constructs example_runtime (js ''not-a-url'')"
    by (simp add: example_runtime_def js_def)
  have u3: "URL_constructs example_runtime (js ''https://example.com/paper'')"
    by (simp add: example_runtime_def)
  have ne: "js ''not-a-url'' \<noteq> []" "js ''https://example.com/paper'' \<noteq> []"
    by (simp_all add: js_def)
  have idl: "js ''1730000000000'' @ js ''-'' @ js ''0.5'' = js ''1730000000000-0.5''"
    by (simp add: js_def)
  have a: "addUrl example_runtime ?n ?r (initial_state\<lparr>urlInput := js ''  ''\<rparr>)
     = initial_state\<lparr>urlInput := js ''  ''\<rparr>"
    using addUrl_cases [where s = "initial_state\<lparr>urlInput := js ''  ''\<rparr>" and rt = example_runtime
        and now = ?n and rnd = ?r] t1
    by simp
  have b: "addUrl example_runtime ?n ?r (initial_state\<lparr>urlInput := js ''not-a-url''\<rparr>) = initial_state"
    using addUrl_cases [where s = "initial_state\<lparr>urlInput := js ''not-a-url''\<rparr>"
        and rt = example_runtime and now = ?n and rnd = ?r] t2 u2 ne
    by (simp add: initial_state_def)
  have c: "files (addUrl example_runtime ?n ?r
     (initial_state\<lparr>urlInput := js '' https://example.com/paper''\<rparr>))
     = [\<lparr>uf_id = js ''1730000000000-0.5'', uf_name = js ''https://example.com/paper'',
         uf_type = Url, uf_content = js ''https://example.com/paper''\<rparr>]
     \<and> urlInput (addUrl example_runtime ?n ?r
     (initial_state\<lparr>urlInput := js '' https://example.com/paper''\<rparr>)) = []"
    using addUrl_cases [where s = "initial_state\<lparr>urlInput := js '' https://example.com/paper''\<rparr>"
        and rt = example_runtime and now = ?n and rnd = ?r] t3 u3 ne
    by (simp add: initial_state_def make_id_def new_url_def idl)
  from a b c show ?thesis by simp
qed

section \<open>Exports against the views\<close>

lemma split_T_first_date: "0x54 \<notin> set date \<Longrightarrow> split_T_first (date @ 0x54 # time) = date"
  by (auto simp: split_T_first_def takeWhile_tail)

lemma js_nullish_truthy: "truthy v \<Longrightarrow> js_nullish (Some v) d = v"
  by (cases v) simp_all

lemma exportMarkdown_Some:
  assumes "exportMarkdown isoString s = Some d"
  shows "result_field (result s) (js ''markdown_output'') = Some (markdown_view s)
     \<and> d = \<lparr>blob_parts = [markdown_view s], blob_type = js ''text/markdown'',
            download_name = js ''literature-review-'' @ split_T_first isoString @ js ''.md''\<rparr>"
  using assms
  by (auto simp: exportMarkdown_def markdown_view_def js_nullish_truthy
      split: option.splits if_splits)

lemma exportJSON_Some:
  assumes "exportJSON rt isoString s = Some d"
  shows "(\<exists>jo. result_field (result s) (js ''json_output'') = Some jo \<and>
            json_view rt s = JString (JSON_stringify2 rt jo))
     \<and> d = \<lparr>blob_parts = [json_view rt s], blob_type = js ''application/json'',
            download_name = js ''literature-review-'' @ split_T_first isoString @ js ''.json''\<rparr>"
  using assms
  by (auto simp: exportJSON_def json_view_def js_nullish_truthy
      split: option.splits if_splits)

text \<open>
  C6: whenever \<^verbatim>\<open>exportMarkdown\<close> produces a download, its content is the
  \<^verbatim>\<open>markdown_output\<close> field itself, which is also what the Markdown tab shows; whenever
  \<^verbatim>\<open>exportJSON\<close> produces a download, its content is \<^verbatim>\<open>JSON.stringify(json_output, null, 2)\<close>,
  which is also what the JSON tab shows. When the field is absent (or falsy) the export
  does nothing, and otherwise it does produce a download. The file name is
  \<^verbatim>\<open>literature-review-\<close>, the part of the ISO time stamp before its \<^verbatim>\<open>T\<close> (the date),
  and \<^verbatim>\<open>.md\<close> or \<^verbatim>\<open>.json\<close>. With \<^verbatim>\<open>markdown_output = "# Title"\<close> the content is
  \<^verbatim>\<open># Title\<close>.
\<close>

theorem exports_equal_views:
  "(exportMarkdown isoString s = Some d \<longrightarrow>
      blob_parts d = [markdown_view s]
      \<and> result_field (result s) (js ''markdown_output'') = Some (markdown_view s)
      \<and> download_name d = js ''literature-review-'' @ split_T_first isoString @ js ''.md'')
 \<and> (exportJSON rt isoString s = Some d' \<longrightarrow>
      blob_parts d' = [json_view rt s]
      \<and> (\<exists>jo. result_field (result s) (js ''json_output'') = Some jo \<and>
            json_view rt s = JString (JSON_stringify2 rt jo))
      \<and> download_name d' = js ''literature-review-'' @ split_T_first isoString @ js ''.json'')
 \<and> (\<not> truthy_opt (result_field (result s) (js ''markdown_output'')) \<longrightarrow>
      exportMarkdown isoString s = None)
 \<and> (\<not> truthy_opt (result_field (result s) (js ''json_output'')) \<longrightarrow>
      exportJSON rt isoString s = None)
 \<and> (truthy_opt (result_field (result s) (js ''markdown_output'')) \<longrightarrow>
      exportMarkdown isoString s \<noteq> None)
 \<and> (truthy_opt (result_field (result s) (js ''json_output'')) \<longrightarrow>
      exportJSON rt isoString s \<noteq> None)
 \<and> (result_field (result s) (js ''markdown_output'') = Some (JString (js ''# Title'')) \<longrightarrow>
      map_option blob_parts (exportMarkdown isoString s) = Some [JString (js ''# Title'')])
 \<and> (0x54 \<notin> set date \<longrightarrow> split_T_first (date @ 0x54 # time) = date)"
proof (intro conjI impI)
  assume e: "exportMarkdown isoString s = Some d"
  from exportMarkdown_Some [OF e]
  show "blob_parts d = [markdown_view s]"
    "result_field (result s) (js ''markdown_output'') = Some (markdown_view s)"
    "download_name d = js ''literature-review-'' @ split_T_first isoString @ js ''.md''"
    by simp_all
next
  assume e: "exportJSON rt isoString s = Some d'"
  from exportJSON_Some [OF e]
  show "blob_parts d' = [json_view rt s]"
    "\<exists>jo. result_field (result s) (js ''json_output'') = Some jo \<and>
            json_view rt s = JString (JSON_stringify2 rt jo)"
    "download_name d' = js ''literature-review-'' @ split_T_first isoString @ js ''.json''"
    by simp_all
next
  assume "\<not> truthy_opt (result_field (result s) (js ''markdown_output''))"
  then show "exportMarkdown isoString s = None"
    by (auto simp: exportMarkdown_def split: option.splits)
next
  assume "\<not> truthy_opt (result_field (result s) (js ''json_output''))"
  then show "exportJSON rt isoString s = None"
    by (auto simp: exportJSON_def split: option.splits)
next
  assume "truthy_opt (result_field (result s) (js ''markdown_output''))"
  then show "exportMarkdown isoString s \<noteq> None"
    by (cases "result_field (result s) (js ''markdown_output'')") (auto simp: exportMarkdown_def)
next
  assume "truthy_opt (result_field (result s) (js ''json_output''))"
  then show "exportJSON rt isoString s \<noteq> None"
    by (cases "result_field (result s) (js ''json_output'')") (auto simp: exportJSON_def)
next
  assume "result_field (result s) (js ''markdown_output'') = Some (JString (js ''# Title''))"
  then show "map_option blob_parts (exportMarkdown isoString s) = Some [JString (js ''# Title'')]"
    by (simp add: exportMarkdown_def js_def)
next
  assume "0x54 \<notin> set date"
  then show "split_T_first (date @ 0x54 # time) = date"
    by (rule split_T_first_date)
qed


theorem exports_equal_views_witness:
  "exportMarkdown (js ''2026-11-02T07:27:00.000Z'')
     (initial_state\<lparr>result := Some (JObject [(js ''metadata'', JObject []),
        (js ''markdown_output'', JString (js ''# Title'')), (js ''json_output'', JObject [])])\<rparr>)
   = Some \<lparr>blob_parts = [JString (js ''# Title'')], blob_type = js ''text/markdown'',
           download_name = js ''literature-review-2026-11-02.md''\<rparr>
 \<and> markdown_view
     (initial_state\<lparr>result := Some (JObject [(js ''metadata'', JObject []),
        (js ''markdown_output'', JString (js ''# Title'')), (js ''json_output'', JObject [])])\<rparr>)
   = JString (js ''# Title'')
 \<and> exportJSON example_runtime (js ''2026-11-02T07:27:00.000Z'')
     (initial_state\<lparr>result := Some (JObject [(js ''metadata'', JObject []),
        (js ''markdown_output'', JString (js ''# Title'')), (js ''json_output'', JObject [])])\<rparr>)
   = Some \<lparr>blob_parts = [JString (js ''{}'')], blob_type = js ''application/json'',
           download_name = js ''literature-review-2026-11-02.json''\<rparr>
 \<and> json_view example_runtime
     (initial_state\<lparr>result := Some (JObject [(js ''metadata'', JObject []),
        (js ''markdown_output'', JString (js ''# Title'')), (js ''json_output'', JObject [])])\<rparr>)
   = JString (js ''{}'')
 \<and> exportMarkdown (js ''2026-11-02T07:27:00.000Z'') initial_state = None
 \<and> exportJSON example_runtime (js ''2026-11-02T07:27:00.000Z'') initial_state = None"
proof -
  let ?iso = "js ''2026-11-02T07:27:00.000Z''"
  let ?s = "initial_state\<lparr>result := Some (JObject [(js ''metadata'', JObject []),
        (js ''markdown_output'', JString (js ''# Title'')), (js ''json_output'', JObject [])])\<rparr>"
  let ?d = "\<lparr>blob_parts = [JString (js ''# Title'')], blob_type = js ''text/markdown'',
           download_name = js ''literature-review-2026-11-02.md''\<rparr>"
  let ?d' = "\<lparr>blob_parts = [JString (js ''{}'')], blob_type = js ''application/json'',
           download_name = js ''literature-review-2026-11-02.json''\<rparr>"
  have k: "js ''metadata'' \<noteq> js ''markdown_output''" "js ''metadata'' \<noteq> js ''json_output''"
    "js ''markdown_output'' \<noteq> js ''json_output''" "js ''json_output'' \<noteq> js ''markdown_output''"
    by (simp_all add: js_def)
  have f1: "result_field (result ?s) (js ''markdown_output'') = Some (JString (js ''# Title''))"
    using k by simp
  have f2: "result_field (result ?s) (js ''json_output'') = Some (JObject [])"
    using k by simp
  have f3: "\<not> truthy_opt (result_field (result initial_state) (js ''markdown_output''))"
    "\<not> truthy_opt (result_field (result initial_state) (js ''json_output''))"
    by (simp_all add: initial_state_def)
  have t: "js ''# Title'' \<noteq> []" by (simp add: js_def)
  have st: "JSON_stringify2 example_runtime (JObject []) = js ''{}''"
    by (simp add: example_runtime_def)
  have n1: "js ''literature-review-'' @ split_T_first ?iso @ js ''.md'' = js ''literature-review-2026-11-02.md''"
    by (simp add: split_T_first_def js_def)
  have n2: "js ''literature-review-'' @ split_T_first ?iso @ js ''.json'' = js ''literature-review-2026-11-02.json''"
    by (simp add: split_T_first_def js_def)
  have h1: "exportMarkdown ?iso ?s = Some ?d"
    using t by (simp add: exportMarkdown_def n1 k k [symmetric])
  have h2: "exportJSON example_runtime ?iso ?s = Some ?d'"
    by (simp add: exportJSON_def n2 st k k [symmetric])
  note e = exports_equal_views [where s = ?s and isoString = ?iso and rt = example_runtime
      and d = ?d and d' = ?d']
  note e0 = exports_equal_views [where s = initial_state and isoString = ?iso
      and rt = example_runtime]
  from e [THEN conjunct1] h1 have a: "markdown_view ?s = JString (js ''# Title'')"
    by simp
  from e [THEN conjunct2, THEN conjunct1] h2 have b: "json_view example_runtime ?s = JString (js ''{}'')"
    by simp
  from e0 [THEN conjunct2, THEN conjunct2, THEN conjunct1] f3(1)
  have c: "exportMarkdown ?iso initial_state = None" by simp
  from e0 [THEN conjunct2, THEN conjunct2, THEN conjunct2, THEN conjunct1] f3(2)
  have c': "exportJSON example_runtime ?iso initial_state = None" by simp
  from h1 a h2 b c c' show ?thesis by simp
qed

section \<open>The registry under additions and removals\<close>

lemma files_step:
  "files (step rt e s) =
     (case e of RemoveClicked j \<Rightarrow> filter (\<lambda>f. uf_id f \<noteq> j) (files s)
      | _ \<Rightarrow> files s @ created rt e s)"
  by (cases e) (simp_all add: onload_def new_file_def addUrl_def new_url_def removeFile_def)

lemma created_length: "length (created rt e s) \<le> 1"
  by (cases e) simp_all

lemma distinct_step:
  assumes "distinct (map uf_id (files s))"
    and "set (map uf_id (created rt e s)) \<inter> set (map uf_id (files s)) = {}"
  shows "distinct (map uf_id (files (step rt e s)))"
proof (cases e)
  case (RemoveClicked i)
  with assms(1) show ?thesis by (simp add: removeFile_def distinct_map_filter)
next
  case (FileLoaded f c now rnd)
  have "length (created rt e s) \<le> 1" by (rule created_length)
  then have "distinct (map uf_id (created rt e s))"
    by (cases "created rt e s") auto
  with assms FileLoaded show ?thesis
    by (simp only: files_step event.case map_append distinct_append) auto
next
  case (UrlSubmitted now rnd)
  have "length (created rt e s) \<le> 1" by (rule created_length)
  then have "distinct (map uf_id (created rt e s))"
    by (cases "created rt e s") auto
  with assms UrlSubmitted show ?thesis
    by (simp only: files_step event.case map_append distinct_append) auto
next
  case (UrlTyped v)
  with assms show ?thesis by simp
qed

lemma distinct_run:
  "distinct (map uf_id (files s)) \<Longrightarrow> fresh_ids rt evs s \<Longrightarrow>
   distinct (map uf_id (files (run rt evs s)))"
proof (induction evs arbitrary: s)
  case Nil
  then show ?case by simp
next
  case (Cons e es)
  from Cons.prems have "distinct (map uf_id (files (step rt e s)))"
    by (intro distinct_step) simp_all
  moreover from Cons.prems have "fresh_ids rt es (step rt e s)" by simp
  ultimately show ?case using Cons.IH by simp
qed

lemma subseq_step: "subseq (files (step rt e s)) (files s @ created rt e s)"
  by (cases e) (simp_all add: files_step del: step.simps)

lemma subseq_run: "subseq (files (run rt evs s)) (files s @ arrivals rt evs s)"
proof (induction evs arbitrary: s)
  case Nil
  then show ?case by simp
next
  case (Cons e es)
  have "subseq (files (run rt es (step rt e s))) (files (step rt e s) @ arrivals rt es (step rt e s))"
    by (rule Cons.IH)
  also have "subseq (files (step rt e s) @ arrivals rt es (step rt e s))
      ((files s @ created rt e s) @ arrivals rt es (step rt e s))"
    by (intro list_emb_append_mono subseq_step) simp
  finally show ?case by simp
qed

lemma run_exact:
  "files (run rt evs s) =
     filter (\<lambda>f. uf_id f \<notin> set (removals evs)) (files s) @ kept rt evs s"
proof (induction evs arbitrary: s)
  case Nil
  then show ?case by simp
next
  case (Cons e es)
  have "files (run rt (e # es) s) =
      filter (\<lambda>f. uf_id f \<notin> set (removals es)) (files (step rt e s)) @ kept rt es (step rt e s)"
    by (simp add: Cons.IH del: step.simps)
  also have "\<dots> = filter (\<lambda>f. uf_id f \<notin> set (removals (e # es))) (files s) @ kept rt (e # es) s"
    by (cases e) (simp_all add: files_step del: step.simps)
  finally show ?case .
qed

lemma split_at_first:
  "a \<notin> set xs \<Longrightarrow> a \<notin> set xs' \<Longrightarrow> xs @ a # ys = xs' @ a # ys' \<Longrightarrow>
   xs = xs' \<and> ys = ys'"
proof (induction xs arbitrary: xs')
  case Nil
  then show ?case by (cases xs') auto
next
  case (Cons x xs)
  then show ?case by (cases xs') auto
qed

lemma make_id_inject:
  assumes "list_all is_digit now" "list_all is_digit now'"
    and "make_id now rnd = make_id now' rnd'"
  shows "now = now' \<and> rnd = rnd'"
proof -
  have d: "\<not> is_digit 0x2D" by (simp add: is_digit_def)
  have m: "js ''-'' = [0x2D]" by (simp add: js_def)
  from assms(1) d have a: "0x2D \<notin> set now" by (auto simp: list_all_iff)
  from assms(2) d have b: "0x2D \<notin> set now'" by (auto simp: list_all_iff)
  from assms(3) have "now @ 0x2D # rnd = now' @ 0x2D # rnd'"
    by (simp add: make_id_def m)
  with a b show ?thesis by (rule split_at_first)
qed

lemma draw_id_inject:
  "digit_clock d \<Longrightarrow> digit_clock d' \<Longrightarrow> draw_id d = draw_id d' \<Longrightarrow> d = d'"
  using make_id_inject [of "fst d" "fst d'" "snd d" "snd d'"]
  by (simp add: digit_clock_def draw_id_def prod_eq_iff)

lemma draws_Cons: "draws (e # es) = draws [e] @ draws es"
  by (cases e) simp_all

lemma created_ids: "set (map uf_id (created rt e s)) \<subseteq> draw_id ` set (draws [e])"
  by (cases e) (auto simp: draw_id_def)

lemma ids_step_subset:
  "set (map uf_id (files (step rt e s))) \<subseteq>
     set (map uf_id (files s)) \<union> set (map uf_id (created rt e s))"
  by (cases e) (auto simp: files_step simp del: step.simps created.simps)

lemma distinct_draws_run:
  assumes "set (map uf_id (files s)) \<subseteq> draw_id ` set ds"
    and "distinct (map uf_id (files s))"
    and "distinct (ds @ draws evs)"
    and "list_all digit_clock (ds @ draws evs)"
  shows "distinct (map uf_id (files (run rt evs s)))"
  using assms
proof (induction evs arbitrary: s ds)
  case Nil
  then show ?case by simp
next
  case (Cons e es)
  let ?ds = "ds @ draws [e]"
  from Cons.prems(3) have dist: "distinct (?ds @ draws es)"
    by (simp add: draws_Cons [of e es])
  from Cons.prems(4) have dig: "list_all digit_clock (?ds @ draws es)"
    by (simp add: draws_Cons [of e es])
  have disj: "set (map uf_id (created rt e s)) \<inter> set (map uf_id (files s)) = {}"
  proof (rule ccontr)
    assume "set (map uf_id (created rt e s)) \<inter> set (map uf_id (files s)) \<noteq> {}"
    then obtain x where x: "x \<in> set (map uf_id (created rt e s))" "x \<in> set (map uf_id (files s))"
      by blast
    from x(1) created_ids [of rt e s] obtain d where d: "d \<in> set (draws [e])" "x = draw_id d"
      by blast
    from x(2) Cons.prems(1) obtain d' where d': "d' \<in> set ds" "x = draw_id d'"
      by blast
    from dig d(1) d'(1) have "digit_clock d" "digit_clock d'"
      by (auto simp: list_all_iff)
    with d(2) d'(2) have "d = d'" by (intro draw_id_inject) simp_all
    with d(1) d'(1) dist show False by auto
  qed
  have "set (map uf_id (files (step rt e s))) \<subseteq> draw_id ` set ds \<union> draw_id ` set (draws [e])"
    using ids_step_subset [of rt e s] created_ids [of rt e s] Cons.prems(1) by blast
  then have sub: "set (map uf_id (files (step rt e s))) \<subseteq> draw_id ` set ?ds"
    by (simp only: set_append image_Un)
  have dst: "distinct (map uf_id (files (step rt e s)))"
    using Cons.prems(2) disj by (rule distinct_step)
  from sub dst dist dig have "distinct (map uf_id (files (run rt es (step rt e s))))"
    by (rule Cons.IH)
  then show ?case by simp
qed

lemma removeFile_absent:
  "i \<notin> set (map uf_id (files s)) \<Longrightarrow> removeFile i s = s"
proof -
  assume "i \<notin> set (map uf_id (files s))"
  then have "filter (\<lambda>f. uf_id f \<noteq> i) (files s) = files s"
    by (auto intro: filter_True)
  then show ?thesis by (simp add: removeFile_def)
qed

lemma removeFile_present:
  assumes "distinct (map uf_id (files s))" and "i \<in> set (map uf_id (files s))"
  shows "\<exists>before f after. files s = before @ f # after \<and> uf_id f = i \<and>
           files (removeFile i s) = before @ after"
proof -
  from assms(2) obtain f where "f \<in> set (files s)" "uf_id f = i" by auto
  then obtain before after where sp: "files s = before @ f # after"
    by (auto dest: split_list)
  with assms(1) \<open>uf_id f = i\<close> have "i \<notin> uf_id ` set before" "i \<notin> uf_id ` set after"
    by auto
  then have "filter (\<lambda>f. uf_id f \<noteq> i) before = before" "filter (\<lambda>f. uf_id f \<noteq> i) after = after"
    by (auto intro: filter_True)
  with sp \<open>uf_id f = i\<close> have "files (removeFile i s) = before @ after"
    by (simp add: removeFile_def)
  with sp \<open>uf_id f = i\<close> show ?thesis by blast
qed

text \<open>
  C5, as the claim states it, fails: an id is the text of the clock reading, a dash and
  the text of the random draw, and nothing compares it with the ids already present.
  Two files loaded within the same millisecond with the same draw give two records with
  one id.
\<close>

theorem duplicate_ids_when_draws_coincide:
  "\<not> distinct (map uf_id (files (run example_runtime
       [FileLoaded \<lparr>file_name = js ''a.bib'', file_mime = []\<rparr> (js ''X'')
          (js ''1730000000000'') (js ''0.5''),
        FileLoaded \<lparr>file_name = js ''b.bib'', file_mime = []\<rparr> (js ''Y'')
          (js ''1730000000000'') (js ''0.5'')]
       initial_state)))"
  by (simp add: onload_def new_file_def initial_state_def)

text \<open>
  C5, amended. A loaded file appends its record, whose id is \<open>make_id now rnd\<close>, at the
  end of the registry; an admitted URL does the same; a removal filters by id; typing
  in the URL field leaves the registry alone. So after every run the registry holds
  exactly the records present at the start or arrived since that no later removal
  names, in the order of arrival. No two records share an id when every generated id
  differs from the ids then present, and in particular when the ids present come from
  earlier draws and all draws, of digit-only clock texts, are pairwise different as
  pairs of clock text and random text. \<^verbatim>\<open>removeFile\<close> changes nothing when no record has
  the id, and with distinct ids it takes out the one record that has it. Two ids made
  from digit-only clock texts are equal only when both texts are equal.
\<close>

theorem registry_order_and_identity:
  "files (step rt (FileLoaded f content now rnd) s) =
     files s @ [\<lparr>uf_id = make_id now rnd,
                 uf_name = (if file_name f = [] then js ''Untitled'' else file_name f),
                 uf_type = classify f content,
                 uf_content = content\<rparr>]
 \<and> files (step rt (UrlSubmitted now rnd) s) =
     files s @ (if trim (urlInput s) \<noteq> [] \<and> URL_constructs rt (trim (urlInput s))
                then [\<lparr>uf_id = make_id now rnd, uf_name = trim (urlInput s), uf_type = Url,
                       uf_content = trim (urlInput s)\<rparr>]
                else [])
 \<and> files (step rt (UrlTyped v) s) = files s
 \<and> files (step rt (RemoveClicked i) s) = filter (\<lambda>f. uf_id f \<noteq> i) (files s)
 \<and> files (run rt evs s) =
     filter (\<lambda>f. uf_id f \<notin> set (removals evs)) (files s) @ kept rt evs s
 \<and> subseq (files (run rt evs s)) (files s @ arrivals rt evs s)
 \<and> (distinct (map uf_id (files s)) \<and> fresh_ids rt evs s \<longrightarrow>
      distinct (map uf_id (files (run rt evs s))))
 \<and> (set (map uf_id (files s)) \<subseteq> draw_id ` set ds \<and> distinct (map uf_id (files s)) \<and>
    distinct (ds @ draws evs) \<and> list_all digit_clock (ds @ draws evs) \<longrightarrow>
      distinct (map uf_id (files (run rt evs s))))
 \<and> (i \<notin> set (map uf_id (files s)) \<longrightarrow> removeFile i s = s)
 \<and> (distinct (map uf_id (files s)) \<and> i \<in> set (map uf_id (files s)) \<longrightarrow>
      (\<exists>before g after. files s = before @ g # after \<and> uf_id g = i \<and>
         files (removeFile i s) = before @ after))
 \<and> (list_all is_digit now \<and> list_all is_digit now' \<and> make_id now rnd = make_id now' rnd'
      \<longrightarrow> now = now' \<and> rnd = rnd')"
proof (intro conjI impI)
  show "files (step rt (FileLoaded f content now rnd) s) =
     files s @ [\<lparr>uf_id = make_id now rnd,
                 uf_name = (if file_name f = [] then js ''Untitled'' else file_name f),
                 uf_type = classify f content,
                 uf_content = content\<rparr>]"
    by (simp add: onload_def new_file_def)
  show "files (step rt (UrlSubmitted now rnd) s) =
     files s @ (if trim (urlInput s) \<noteq> [] \<and> URL_constructs rt (trim (urlInput s))
                then [\<lparr>uf_id = make_id now rnd, uf_name = trim (urlInput s), uf_type = Url,
                       uf_content = trim (urlInput s)\<rparr>]
                else [])"
    by (simp add: addUrl_def new_url_def)
  show "files (step rt (UrlTyped v) s) = files s"
    by simp
  show "files (step rt (RemoveClicked i) s) = filter (\<lambda>f. uf_id f \<noteq> i) (files s)"
    by (simp add: removeFile_def)
  show "files (run rt evs s) =
     filter (\<lambda>f. uf_id f \<notin> set (removals evs)) (files s) @ kept rt evs s"
    by (rule run_exact)
  show "subseq (files (run rt evs s)) (files s @ arrivals rt evs s)"
    by (rule subseq_run)
  show "distinct (map uf_id (files (run rt evs s)))"
    if "distinct (map uf_id (files s)) \<and> fresh_ids rt evs s"
    using that by (simp add: distinct_run)
  show "distinct (map uf_id (files (run rt evs s)))"
    if "set (map uf_id (files s)) \<subseteq> draw_id ` set ds \<and> distinct (map uf_id (files s)) \<and>
      distinct (ds @ draws evs) \<and> list_all digit_clock (ds @ draws evs)"
    using that distinct_draws_run [of s ds evs rt] by blast
  show "removeFile i s = s" if "i \<notin> set (map uf_id (files s))"
    using that by (rule removeFile_absent)
  show "\<exists>before g after. files s = before @ g # after \<and> uf_id g = i \<and>
         files (removeFile i s) = before @ after"
    if "distinct (map uf_id (files s)) \<and> i \<in> set (map uf_id (files s))"
    using that removeFile_present [of s i] by blast
  show "now = now'" "rnd = rnd'"
    if "list_all is_digit now \<and> list_all is_digit now' \<and> make_id now rnd = make_id now' rnd'"
    using that make_id_inject [of now now' rnd rnd'] by simp_all
qed

theorem registry_order_and_identity_witness:
  "files (run example_runtime
     [FileLoaded \<lparr>file_name = js ''a.bib'', file_mime = []\<rparr> (js ''X'')
        (js ''1730000000000'') (js ''0.5''),
      FileLoaded \<lparr>file_name = [], file_mime = []\<rparr> (js ''10.123'')
        (js ''1730000000000'') (js ''0.75''),
      UrlTyped (js '' https://example.com/paper ''),
      UrlSubmitted (js ''1730000000000'') (js ''0.25''),
      RemoveClicked (js ''1730000000000-0.5'')]
     initial_state)
   = [\<lparr>uf_id = js ''1730000000000-0.75'', uf_name = js ''Untitled'',
       uf_type = Doi, uf_content = js ''10.123''\<rparr>,
      \<lparr>uf_id = js ''1730000000000-0.25'', uf_name = js ''https://example.com/paper'',
       uf_type = Url, uf_content = js ''https://example.com/paper''\<rparr>]
 \<and> distinct (map uf_id (files (run example_runtime
     [FileLoaded \<lparr>file_name = js ''a.bib'', file_mime = []\<rparr> (js ''X'')
        (js ''1730000000000'') (js ''0.5''),
      FileLoaded \<lparr>file_name = [], file_mime = []\<rparr> (js ''10.123'')
        (js ''1730000000000'') (js ''0.75''),
      UrlTyped (js '' https://example.com/paper ''),
      UrlSubmitted (js ''1730000000000'') (js ''0.25''),
      RemoveClicked (js ''1730000000000-0.5'')]
     initial_state)))"
proof -
  let ?evs = "[FileLoaded \<lparr>file_name = js ''a.bib'', file_mime = []\<rparr> (js ''X'')
        (js ''1730000000000'') (js ''0.5''),
      FileLoaded \<lparr>file_name = [], file_mime = []\<rparr> (js ''10.123'')
        (js ''1730000000000'') (js ''0.75''),
      UrlTyped (js '' https://example.com/paper ''),
      UrlSubmitted (js ''1730000000000'') (js ''0.25''),
      RemoveClicked (js ''1730000000000-0.5'')]"
  note t = registry_order_and_identity
    [where rt = example_runtime and evs = ?evs and s = initial_state and ds = "[]"]
  have tr: "trim (js '' https://example.com/paper '') = js ''https://example.com/paper''"
    by (simp add: trim_def is_white_def js_def)
  have u: "URL_constructs example_runtime (js ''https://example.com/paper'')"
    by (simp add: example_runtime_def)
  have ne: "js ''https://example.com/paper'' \<noteq> []" by (simp add: js_def)
  have c: "classify \<lparr>file_name = js ''a.bib'', file_mime = []\<rparr> (js ''X'') = Bibtex"
    "classify \<lparr>file_name = [], file_mime = []\<rparr> (js ''10.123'') = Doi"
    by (simp_all add: classify_def endsWith_def startsWith_def match_doi_def is_digit_def js_def)
  have ids: "make_id (js ''1730000000000'') (js ''0.5'') = js ''1730000000000-0.5''"
    "make_id (js ''1730000000000'') (js ''0.75'') = js ''1730000000000-0.75''"
    "make_id (js ''1730000000000'') (js ''0.25'') = js ''1730000000000-0.25''"
    by (simp_all add: make_id_def js_def)
  have neq: "js ''1730000000000-0.75'' \<noteq> js ''1730000000000-0.5''"
    "js ''1730000000000-0.25'' \<noteq> js ''1730000000000-0.5''"
    by (simp_all add: js_def)
  have f0: "files initial_state = []" "urlInput initial_state = []"
    by (simp_all add: initial_state_def)
  have k: "kept example_runtime ?evs initial_state =
      [\<lparr>uf_id = js ''1730000000000-0.75'', uf_name = js ''Untitled'',
       uf_type = Doi, uf_content = js ''10.123''\<rparr>,
      \<lparr>uf_id = js ''1730000000000-0.25'', uf_name = js ''https://example.com/paper'',
       uf_type = Url, uf_content = js ''https://example.com/paper''\<rparr>]"
    by (simp add: onload_def addUrl_def tr u ne c ids neq)
  have r: "files (run example_runtime ?evs initial_state) =
      [\<lparr>uf_id = js ''1730000000000-0.75'', uf_name = js ''Untitled'',
       uf_type = Doi, uf_content = js ''10.123''\<rparr>,
      \<lparr>uf_id = js ''1730000000000-0.25'', uf_name = js ''https://example.com/paper'',
       uf_type = Url, uf_content = js ''https://example.com/paper''\<rparr>]"
    using t [THEN conjunct2, THEN conjunct2, THEN conjunct2, THEN conjunct2, THEN conjunct1]
    by (simp only: k f0 filter.simps append_Nil)
  have h: "set (map uf_id (files initial_state)) \<subseteq> draw_id ` set [] \<and>
      distinct (map uf_id (files initial_state)) \<and>
      distinct ([] @ draws ?evs) \<and> list_all digit_clock ([] @ draws ?evs)"
    by (simp add: f0 digit_clock_def) (simp add: js_def is_digit_def)
  have d: "distinct (map uf_id (files (run example_runtime ?evs initial_state)))"
    using t [THEN conjunct2, THEN conjunct2, THEN conjunct2, THEN conjunct2, THEN conjunct2,
        THEN conjunct2, THEN conjunct2, THEN conjunct1] h by blast
  from r d show ?thesis by simp
qed

section \<open>The copied indicator\<close>

lemma fold_reset:
  "fold (\<lambda>d s'. s'\<lparr>copiedIndex := None\<rparr>) ds s = (if ds = [] then s else s\<lparr>copiedIndex := None\<rparr>)"
  by (induction ds arbitrary: s) simp_all

lemma run_due_state:
  "run_due t s =
     s\<lparr>copiedIndex := (if filter (\<lambda>d. d \<le> t) (pending s) = [] then copiedIndex s else None),
       pending := filter (\<lambda>d. t < d) (pending s)\<rparr>"
  by (simp add: run_due_def fold_reset)

lemma run_due_none_due:
  "filter (\<lambda>d. d \<le> t) (pending s) = [] \<Longrightarrow> run_due t s = s"
proof -
  assume a: "filter (\<lambda>d. d \<le> t) (pending s) = []"
  then have "\<forall>d\<in>set (pending s). t < d"
    by (auto simp: filter_empty_conv)
  then have "filter (\<lambda>d. t < d) (pending s) = pending s"
    by (auto intro: filter_True)
  with a show ?thesis by (simp add: run_due_def)
qed

lemma after_copy_api:
  "after_copy True now x T s =
     s\<lparr>clipboard := Some x, copiedIndex := Some T, pending := pending s @ [now + 2000]\<rparr>"
  by (simp add: after_copy_def copyToClipboard_def)

lemma after_copy_no_api: "after_copy False now x T s = s"
  by (simp add: after_copy_def copyToClipboard_def)

text \<open>
  C7, as the claim states it, fails: \<^verbatim>\<open>copyToClipboard\<close> schedules a reset and keeps no
  handle to it; no pending reset is ever cancelled. With the Clipboard API present, copy
  on the Markdown tab at time 0 and copy on the JSON tab at time 1500: at time 2000 the
  reset scheduled by the first copy runs and the indicator of the JSON tab is gone,
  500 ms after its copy and 1500 ms before its own reset is due.
\<close>

theorem earlier_timer_clears_later_copy:
  "copiedIndex (run_due 2000
      (after_copy True 1500 (JString (js ''{}'')) (js ''json'')
        (run_due 1500
          (after_copy True 0 (JString (js ''# Title'')) (js ''markdown'') initial_state))))
     = None
 \<and> (2000::nat) < 1500 + 2000"
  by (simp add: run_due_def after_copy_api initial_state_def)

text \<open>
  C7, amended. With the Clipboard API present, a copy on target \<open>T\<close> hands the text to
  the clipboard, marks \<open>T\<close> and only \<open>T\<close> as copied, whatever was shown before, and
  adds a reset due 2000 ms later, leaving the pending ones in place; without the API the
  call throws at its first line and the state is what it was. The state is a single
  slot, so two targets never show at once, and right after copying \<open>A\<close> and then \<open>B\<close>
  only \<open>B\<close> shows. At time \<open>t\<close> the resets due by then leave the queue, and if there
  was one, from whichever copy, the indicator is neutral; while none is due nothing
  changes. So after a copy made while no reset is pending the indicator stays for less
  than 2000 ms, and at 2000 ms after any copy it is neutral.
\<close>

theorem copied_feedback_single_slot:
  "copyToClipboard True now x T s =
     Inr (s\<lparr>clipboard := Some x, copiedIndex := Some T, pending := pending s @ [now + 2000]\<rparr>)
 \<and> copyToClipboard False now x T s = Inl ClipboardUnavailable
 \<and> after_copy False now x T s = s
 \<and> copiedIndex (after_copy True now x T s) = Some T
 \<and> (shows_copied (after_copy True now x T s) T' \<longleftrightarrow> T' = T)
 \<and> (shows_copied s A \<and> shows_copied s B \<longrightarrow> A = B)
 \<and> copiedIndex (after_copy True t2 y B (run_due t2 (after_copy api t1 x A s))) = Some B
 \<and> pending (after_copy True now x T s) = pending s @ [now + 2000]
 \<and> run_due t s =
     s\<lparr>copiedIndex := (if filter (\<lambda>d. d \<le> t) (pending s) = [] then copiedIndex s else None),
       pending := filter (\<lambda>d. t < d) (pending s)\<rparr>
 \<and> pending (run_due t s) = filter (\<lambda>d. t < d) (pending s)
 \<and> (filter (\<lambda>d. d \<le> t) (pending s) \<noteq> [] \<longrightarrow> copiedIndex (run_due t s) = None)
 \<and> (filter (\<lambda>d. d \<le> t) (pending s) = [] \<longrightarrow> run_due t s = s)
 \<and> (filter (\<lambda>d. d \<le> t) (pending s) = [] \<and> t < now + 2000 \<longrightarrow>
      copiedIndex (run_due t (after_copy True now x T s)) = Some T)
 \<and> (now + 2000 \<le> t \<longrightarrow> copiedIndex (run_due t (after_copy True now x T s)) = None)"
proof (intro conjI impI)
  show "copyToClipboard True now x T s =
     Inr (s\<lparr>clipboard := Some x, copiedIndex := Some T, pending := pending s @ [now + 2000]\<rparr>)"
    by (simp add: copyToClipboard_def)
  show "copyToClipboard False now x T s = Inl ClipboardUnavailable"
    by (simp add: copyToClipboard_def)
  show "after_copy False now x T s = s"
    by (rule after_copy_no_api)
  show "copiedIndex (after_copy True now x T s) = Some T"
    by (simp add: after_copy_api)
  show "shows_copied (after_copy True now x T s) T' \<longleftrightarrow> T' = T"
    by (auto simp: after_copy_api shows_copied_def)
  show "A = B" if "shows_copied s A \<and> shows_copied s B"
    using that by (auto simp: shows_copied_def)
  show "copiedIndex (after_copy True t2 y B (run_due t2 (after_copy api t1 x A s))) = Some B"
    by (simp add: after_copy_api)
  show "pending (after_copy True now x T s) = pending s @ [now + 2000]"
    by (simp add: after_copy_api)
  show "run_due t s =
     s\<lparr>copiedIndex := (if filter (\<lambda>d. d \<le> t) (pending s) = [] then copiedIndex s else None),
       pending := filter (\<lambda>d. t < d) (pending s)\<rparr>"
    by (rule run_due_state)
  show "pending (run_due t s) = filter (\<lambda>d. t < d) (pending s)"
    by (simp add: run_due_def)
  show "copiedIndex (run_due t s) = None" if "filter (\<lambda>d. d \<le> t) (pending s) \<noteq> []"
    using that by (simp add: run_due_state)
  show "run_due t s = s" if "filter (\<lambda>d. d \<le> t) (pending s) = []"
    using that by (rule run_due_none_due)
  show "copiedIndex (run_due t (after_copy True now x T s)) = Some T"
    if "filter (\<lambda>d. d \<le> t) (pending s) = [] \<and> t < now + 2000"
    using that by (simp add: run_due_state after_copy_api)
  show "copiedIndex (run_due t (after_copy True now x T s)) = None" if "now + 2000 \<le> t"
    using that by (simp add: run_due_state after_copy_api)
qed

theorem copied_feedback_single_slot_witness:
  "copiedIndex (after_copy True 1500 (JString (js ''{}'')) (js ''json'')
      (run_due 1500 (after_copy True 0 (JString (js ''# Title'')) (js ''markdown'') initial_state)))
     = Some (js ''json'')
 \<and> copiedIndex (run_due 1999
      (after_copy True 0 (JString (js ''# Title'')) (js ''markdown'') initial_state))
     = Some (js ''markdown'')
 \<and> copiedIndex (run_due 2000
      (after_copy True 0 (JString (js ''# Title'')) (js ''markdown'') initial_state))
     = None
 \<and> pending (run_due 2000
      (after_copy True 1500 (JString (js ''{}'')) (js ''json'')
        (run_due 1500
          (after_copy True 0 (JString (js ''# Title'')) (js ''markdown'') initial_state))))
     = [3500]
 \<and> run_due 1500 initial_state = initial_state
 \<and> after_copy False 0 (JString (js ''# Title'')) (js ''markdown'') initial_state = initial_state"
proof -
  let ?a = "JString (js ''# Title'')" and ?b = "JString (js ''{}'')"
  let ?s1 = "after_copy True 0 ?a (js ''markdown'') initial_state"
  let ?s2 = "after_copy True 1500 ?b (js ''json'') (run_due 1500 ?s1)"
  note t1 = copied_feedback_single_slot [where s = initial_state and ?t1.0 = 0 and ?t2.0 = 1500
      and x = ?a and y = ?b and A = "js ''markdown''" and B = "js ''json''" and api = True
      and now = 0 and T = "js ''markdown''" and t = 1999]
  note t2 = copied_feedback_single_slot [where s = initial_state
      and x = ?a and now = 0 and T = "js ''markdown''" and t = 2000]
  note t3 = copied_feedback_single_slot [where s = initial_state and t = 1500]
  note t4 = copied_feedback_single_slot [where s = ?s2 and t = 2000]
  have p: "pending initial_state = []" by (simp add: initial_state_def)
  have p2: "pending ?s2 = [2000, 3500]"
    by (simp add: after_copy_api run_due_def p)
  have a: "copiedIndex ?s2 = Some (js ''json'')"
    using t1 by simp
  have b: "copiedIndex (run_due 1999 ?s1) = Some (js ''markdown'')"
    using t1 p by simp
  have c: "copiedIndex (run_due 2000 ?s1) = None"
    using t2 by simp
  have d: "run_due 1500 initial_state = initial_state"
    using t3 p by simp
  have e: "pending (run_due 2000 ?s2) = [3500]"
    using t4 [THEN conjunct2, THEN conjunct2, THEN conjunct2, THEN conjunct2, THEN conjunct2,
        THEN conjunct2, THEN conjunct2, THEN conjunct2, THEN conjunct2, THEN conjunct1]
    by (simp only: p2) simp
  have f: "after_copy False 0 ?a (js ''markdown'') initial_state = initial_state"
    using t2 by simp
  from a b c d e f show ?thesis by simp
qed

end
